theory Spec2Isabelle
  imports Complex_Main
begin

section \<open>Python values and string operations used by keyio.py\<close>

text \<open>
  The exceptions the module can raise or let through. \<open>RequestException\<close> stands for
  whatever the HTTP client raises on a transport failure, \<open>Failure msg\<close> for a plain
  \<^verbatim>\<open>Exception(msg)\<close>.
\<close>

datatype exn =
    KeyError
  | TypeError
  | AttributeError
  | ValueError
  | IOError
  | RequestException
  | Failure string

text \<open>\<^verbatim>\<open>str.lower()\<close> on a byte string: only the ASCII letters A..Z change.\<close>

definition lower_char :: "char \<Rightarrow> char" where
  "lower_char c =
     (if 65 \<le> (of_char c :: nat) \<and> (of_char c :: nat) \<le> 90
      then (case c of Char b0 b1 b2 b3 b4 b5 b6 b7 \<Rightarrow> Char b0 b1 b2 b3 b4 True b6 b7)
      else c)"

definition lower :: "string \<Rightarrow> string" where
  "lower s = map lower_char s"

definition startswith :: "string \<Rightarrow> string \<Rightarrow> bool" where
  "startswith s p = (take (length p) s = p)"

definition endswith :: "string \<Rightarrow> string \<Rightarrow> bool" where
  "endswith s p = (length p \<le> length s \<and> drop (length s - length p) s = p)"

text \<open>\<^verbatim>\<open>sub in s\<close>: \<open>sub\<close> occurs in \<open>s\<close> as a contiguous substring.\<close>

fun str_in :: "string \<Rightarrow> string \<Rightarrow> bool" where
  "str_in sub [] = (sub = [])"
| "str_in sub (c # cs) = (startswith (c # cs) sub \<or> str_in sub cs)"

text \<open>
  The value of a key object's \<^verbatim>\<open>key\<close> attribute: a string (the default \<^verbatim>\<open>""\<close>, or
  the raw secret of a symmetric key), an RSA key object of the crypto library (named
  by its identity), or \<^verbatim>\<open>None\<close>.
\<close>

datatype material = Str string | RSA_obj nat | NoneVal

text \<open>
  Python's truth value of such a value (\<^verbatim>\<open>if self.key:\<close>, \<^verbatim>\<open>if val:\<close>): a string is
  true unless empty, \<^verbatim>\<open>None\<close> is false, an RSA key object is true (its length is its
  size in bits).
\<close>

fun truthy :: "material \<Rightarrow> bool" where
  "truthy (Str s) = (s \<noteq> [])"
| "truthy (RSA_obj h) = True"
| "truthy NoneVal = False"

section \<open>Key and its variants\<close>

text \<open>The attributes every \<^verbatim>\<open>Key\<close> carries (\<^verbatim>\<open>Key.__init__\<close>).\<close>

record Key =
  key :: material
  kty :: string
  alg :: string
  use :: string
  kid :: string

text \<open>
  The three classes of \<^verbatim>\<open>K2C\<close>: \<^verbatim>\<open>RSA_key\<close> adds \<^verbatim>\<open>n\<close> and \<^verbatim>\<open>e\<close>, \<^verbatim>\<open>EC_key\<close>
  adds \<^verbatim>\<open>crv\<close>, \<^verbatim>\<open>x\<close> and \<^verbatim>\<open>y\<close>, \<^verbatim>\<open>HMAC_key\<close> adds nothing.
\<close>

datatype key_obj =
    RSA_key (base: Key) (rsa_n: string) (rsa_e: string)
  | EC_key (base: Key) (ec_crv: string) (ec_x: string) (ec_y: string)
  | HMAC_key (base: Key)

fun set_base :: "key_obj \<Rightarrow> Key \<Rightarrow> key_obj" where
  "set_base (RSA_key b n0 e0) b' = RSA_key b' n0 e0"
| "set_base (EC_key b c0 x0 y0) b' = EC_key b' c0 x0 y0"
| "set_base (HMAC_key b) b' = HMAC_key b'"

text \<open>\<^verbatim>\<open>Key.__init__(self, kty, alg, use, kid, key)\<close>: the kind is stored in lower case.\<close>

definition Key_init :: "string \<Rightarrow> string \<Rightarrow> string \<Rightarrow> string \<Rightarrow> material \<Rightarrow> Key" where
  "Key_init kty0 alg0 use0 kid0 key0 =
     \<lparr>key = key0, kty = lower kty0, alg = alg0, use = use0, kid = kid0\<rparr>"

text \<open>The class attribute \<^verbatim>\<open>members\<close>.\<close>

fun members :: "key_obj \<Rightarrow> string list" where
  "members (RSA_key b n0 e0) = [''kty'', ''alg'', ''use'', ''kid'', ''n'', ''e'']"
| "members (EC_key b c0 x0 y0) = [''kty'', ''alg'', ''use'', ''kid'', ''crv'', ''x'', ''y'']"
| "members (HMAC_key b) = [''kty'', ''alg'', ''use'', ''kid'']"

text \<open>
  \<^verbatim>\<open>getattr(self, name)\<close> for the names that occur in \<^verbatim>\<open>members\<close>; \<open>None\<close> where the
  object has no such attribute.
\<close>

definition getattr :: "key_obj \<Rightarrow> string \<Rightarrow> string option" where
  "getattr k a =
     (if a = ''kty'' then Some (kty (base k))
      else if a = ''alg'' then Some (alg (base k))
      else if a = ''use'' then Some (use (base k))
      else if a = ''kid'' then Some (kid (base k))
      else (case k of
          RSA_key b n0 e0 \<Rightarrow>
            (if a = ''n'' then Some n0 else if a = ''e'' then Some e0 else None)
        | EC_key b c0 x0 y0 \<Rightarrow>
            (if a = ''crv'' then Some c0 else if a = ''x'' then Some x0
             else if a = ''y'' then Some y0 else None)
        | HMAC_key b \<Rightarrow> None))"

text \<open>
  A serialized key (a JWK): a dictionary from member names to strings, as an
  association list.
\<close>

type_synonym jwk = "(string \<times> string) list"

text \<open>
  \<^verbatim>\<open>Key.to_dict\<close>: the members whose value is non-empty, in the order of \<^verbatim>\<open>members\<close>.
  Every name of \<^verbatim>\<open>members\<close> is an attribute of the object, so the \<open>None\<close> branch is
  never taken.
\<close>

fun to_dict_loop :: "key_obj \<Rightarrow> string list \<Rightarrow> jwk \<Rightarrow> jwk" where
  "to_dict_loop k [] res = res"
| "to_dict_loop k (a # as) res =
     (case getattr k a of
        Some v \<Rightarrow> to_dict_loop k as (if v \<noteq> [] then res @ [(a, v)] else res)
      | None \<Rightarrow> to_dict_loop k as res)"

definition to_dict :: "key_obj \<Rightarrow> jwk" where
  "to_dict k = to_dict_loop k (members k) []"

section \<open>The world outside the module\<close>

text \<open>
  A GET request as \<^verbatim>\<open>do_remote\<close> issues it (redirects allowed, timeout 5.0): the
  URL, the TLS verification flag and the \<^verbatim>\<open>If-None-Match\<close> header when one is sent.
\<close>

record http_request =
  url :: "string option"
  verify :: bool
  if_none_match :: "string option"

text \<open>
  What \<^verbatim>\<open>do_remote\<close> reads of a response: the status code, the value of
  \<^verbatim>\<open>json.loads(r.text)["keys"]\<close> (an exception when the body is not such a document)
  and the two headers.
\<close>

record response =
  status_code :: int
  text_keys :: "exn + jwk list"
  hdr_etag :: "string option"
  hdr_cache_control :: "string option"

text \<open>
  Everything the module reads from outside: the clock (\<open>clock w i\<close> is what the
  \<open>i\<close>-th call of \<^verbatim>\<open>time.time()\<close> returns), the HTTP client (\<open>http w i rq\<close> is the
  outcome of the \<open>i\<close>-th request, an exception for a transport failure), the local
  files, and the crypto library behind \<^verbatim>\<open>comp\<close> and \<^verbatim>\<open>decomp\<close>. \<open>ticks\<close> counts
  the clock readings and \<open>sent\<close> lists the requests made so far.

  A timestamp is a double, taken as the real number it denotes; doubles compare as
  these numbers do. The sum of two doubles is rounded by the machine: \<open>float_add w x y\<close>
  is the double that \<^verbatim>\<open>x + y\<close> evaluates to, which need not be the real sum.
\<close>

record world =
  clock :: "nat \<Rightarrow> real"
  ticks :: nat
  float_add :: "real \<Rightarrow> real \<Rightarrow> real"
  http :: "nat \<Rightarrow> http_request \<Rightarrow> exn + response"
  sent :: "http_request list"
  jwks_file :: "string \<Rightarrow> exn + jwk list"
  rsa_load :: "string \<Rightarrow> exn + nat"
  new_pub_key :: "string \<Rightarrow> string \<Rightarrow> exn + nat"
  b64_n :: "nat \<Rightarrow> string"
  b64_e :: "nat \<Rightarrow> string"

text \<open>\<^verbatim>\<open>time.time()\<close>.\<close>

definition time :: "world \<Rightarrow> real \<times> world" where
  "time w = (clock w (ticks w), w\<lparr>ticks := Suc (ticks w)\<rparr>)"

text \<open>\<^verbatim>\<open>request("GET", ...)\<close>.\<close>

definition request :: "http_request \<Rightarrow> world \<Rightarrow> (exn + response) \<times> world" where
  "request rq w = (http w (length (sent w)) rq, w\<lparr>sent := sent w @ [rq]\<rparr>)"

section \<open>Reconciling key material and serializable fields\<close>

text \<open>
  \<^verbatim>\<open>RSA_key.comp\<close>: the key object is built by the crypto library from \<^verbatim>\<open>e\<close> and
  \<^verbatim>\<open>n\<close>. The base class does nothing.
\<close>

fun comp :: "world \<Rightarrow> key_obj \<Rightarrow> exn + key_obj" where
  "comp w (RSA_key b n0 e0) =
     (case new_pub_key w e0 n0 of
        Inl ex \<Rightarrow> Inl ex
      | Inr h \<Rightarrow> Inr (RSA_key (b\<lparr>key := RSA_obj h\<rparr>) n0 e0))"
| "comp w k = Inr k"

text \<open>
  \<^verbatim>\<open>RSA_key.decomp\<close>: \<^verbatim>\<open>n\<close> and \<^verbatim>\<open>e\<close> are read off the key object; a string or
  \<^verbatim>\<open>None\<close> has no attribute \<^verbatim>\<open>n\<close>. The base class does nothing.
\<close>

fun decomp :: "world \<Rightarrow> key_obj \<Rightarrow> exn + key_obj" where
  "decomp w (RSA_key b n0 e0) =
     (case key b of
        RSA_obj h \<Rightarrow> Inr (RSA_key b (b64_n w h) (b64_e w h))
      | Str s \<Rightarrow> Inl AttributeError
      | NoneVal \<Rightarrow> Inl AttributeError)"
| "decomp w k = Inr k"

text \<open>\<^verbatim>\<open>dc\<close>: \<^verbatim>\<open>RSA_key\<close> overrides it, the other classes inherit the empty one.\<close>

fun dc :: "world \<Rightarrow> key_obj \<Rightarrow> exn + key_obj" where
  "dc w (RSA_key b n0 e0) =
     (if truthy (key b) then decomp w (RSA_key b n0 e0)
      else if n0 \<noteq> [] \<and> e0 \<noteq> [] then comp w (RSA_key b n0 e0)
      else Inr (RSA_key b n0 e0))"
| "dc w k = Inr k"

section \<open>Building a key from its serialized form\<close>

datatype key_class = RSA_class | EC_class | HMAC_class

text \<open>The table \<^verbatim>\<open>K2C\<close>.\<close>

definition K2C :: "string \<Rightarrow> key_class option" where
  "K2C typ =
     (if typ = ''rsa'' then Some RSA_class
      else if typ = ''ec'' then Some EC_class
      else if typ = ''hmac'' then Some HMAC_class
      else None)"

text \<open>A keyword argument taken from the dictionary, or the parameter's default.\<close>

definition kwarg :: "jwk \<Rightarrow> string \<Rightarrow> string \<Rightarrow> string" where
  "kwarg inst a dflt = (case map_of inst a of Some v \<Rightarrow> v | None \<Rightarrow> dflt)"

text \<open>
  \<^verbatim>\<open>K2C[typ](**inst)\<close>: the constructor of the class called with the dictionary as
  keyword arguments. A member that is not a parameter of the constructor is a
  \<^verbatim>\<open>TypeError\<close>. The defaults are those of each \<^verbatim>\<open>__init__\<close> (\<^verbatim>\<open>EC_key\<close>'s default
  kind is \<^verbatim>\<open>"rsa"\<close>, \<^verbatim>\<open>HMAC_key\<close> inherits the default \<^verbatim>\<open>""\<close> of \<^verbatim>\<open>Key\<close>).
\<close>

definition construct :: "key_class \<Rightarrow> jwk \<Rightarrow> exn + key_obj" where
  "construct c inst =
     (case c of
        RSA_class \<Rightarrow>
          (if list_all (\<lambda>(a, v). a \<in> set [''kty'', ''alg'', ''use'', ''kid'', ''n'', ''e'', ''key''])
                inst
           then Inr (RSA_key
                  (Key_init (kwarg inst ''kty'' ''rsa'') (kwarg inst ''alg'' [])
                     (kwarg inst ''use'' []) (kwarg inst ''kid'' []) (Str (kwarg inst ''key'' [])))
                  (kwarg inst ''n'' []) (kwarg inst ''e'' []))
           else Inl TypeError)
      | EC_class \<Rightarrow>
          (if list_all
                (\<lambda>(a, v). a \<in> set [''kty'', ''alg'', ''use'', ''kid'', ''crv'', ''x'', ''y'', ''key''])
                inst
           then Inr (EC_key
                  (Key_init (kwarg inst ''kty'' ''rsa'') (kwarg inst ''alg'' [])
                     (kwarg inst ''use'' []) (kwarg inst ''kid'' []) (Str (kwarg inst ''key'' [])))
                  (kwarg inst ''crv'' []) (kwarg inst ''x'' []) (kwarg inst ''y'' []))
           else Inl TypeError)
      | HMAC_class \<Rightarrow>
          (if list_all (\<lambda>(a, v). a \<in> set [''kty'', ''alg'', ''use'', ''kid'', ''key'']) inst
           then Inr (HMAC_key
                  (Key_init (kwarg inst ''kty'' []) (kwarg inst ''alg'' [])
                     (kwarg inst ''use'' []) (kwarg inst ''kid'' []) (Str (kwarg inst ''key'' []))))
           else Inl TypeError))"

text \<open>
  The body of the loop of \<^verbatim>\<open>KeyBundle.do_keys\<close> for one entry: look the class up by
  the lower-cased \<^verbatim>\<open>inst["kty"]\<close>, construct the key, reconcile it with \<^verbatim>\<open>dc\<close>.
\<close>

definition key_of_jwk :: "world \<Rightarrow> jwk \<Rightarrow> exn + key_obj" where
  "key_of_jwk w inst =
     (case map_of inst ''kty'' of
        None \<Rightarrow> Inl KeyError
      | Some t \<Rightarrow>
          (case K2C (lower t) of
             None \<Rightarrow> Inl KeyError
           | Some c \<Rightarrow>
               (case construct c inst of
                  Inl ex \<Rightarrow> Inl ex
                | Inr k \<Rightarrow> dc w k)))"

section \<open>KeyBundle\<close>

text \<open>
  The attributes of a \<^verbatim>\<open>KeyBundle\<close>; \<open>kb_keys\<close> is \<^verbatim>\<open>_keys\<close>. \<^verbatim>\<open>source\<close> and
  \<^verbatim>\<open>cache_control\<close> may be \<^verbatim>\<open>None\<close>, and so may \<^verbatim>\<open>keyusage\<close>.
\<close>

record KeyBundle =
  kb_keys :: "key_obj list"
  remote :: bool
  verify_ssl :: bool
  cache_time :: real
  time_out :: real
  etag :: string
  cache_control :: "string option"
  source :: "string option"
  fileformat :: string
  keytype :: string
  keyusage :: "string list option"

text \<open>
  \<^verbatim>\<open>do_keys\<close>: each entry is turned into a key and appended to \<^verbatim>\<open>_keys\<close>; an
  exception leaves the keys appended before it in place.
\<close>

fun do_keys :: "world \<Rightarrow> jwk list \<Rightarrow> KeyBundle \<Rightarrow> (exn + unit) \<times> KeyBundle" where
  "do_keys w [] kb = (Inr (), kb)"
| "do_keys w (inst # rest) kb =
     (case key_of_jwk w inst of
        Inl ex \<Rightarrow> (Inl ex, kb)
      | Inr k \<Rightarrow> do_keys w rest (kb\<lparr>kb_keys := kb_keys kb @ [k]\<rparr>))"

text \<open>\<^verbatim>\<open>do_local_jwk\<close>: the file is read and parsed, then \<^verbatim>\<open>do_keys\<close>.\<close>

definition do_local_jwk :: "world \<Rightarrow> string \<Rightarrow> KeyBundle \<Rightarrow> (exn + unit) \<times> KeyBundle" where
  "do_local_jwk w filename kb =
     (case jwks_file w filename of
        Inl ex \<Rightarrow> (Inl ex, kb)
      | Inr ks \<Rightarrow> do_keys w ks kb)"

text \<open>
  The object \<^verbatim>\<open>K2C[keytype]()\<close> built with every default, as \<^verbatim>\<open>do_local_der\<close> does.
\<close>

definition default_key :: "key_class \<Rightarrow> key_obj" where
  "default_key c =
     (case c of
        RSA_class \<Rightarrow> RSA_key (Key_init ''rsa'' [] [] [] (Str [])) [] []
      | EC_class \<Rightarrow> EC_key (Key_init ''rsa'' [] [] [] (Str [])) [] [] []
      | HMAC_class \<Rightarrow> HMAC_key (Key_init [] [] [] [] (Str [])))"

text \<open>The loop of \<^verbatim>\<open>do_local_der\<close> over the usages: one key per usage, all on \<open>bkey\<close>.\<close>

fun do_local_der_loop ::
  "world \<Rightarrow> string \<Rightarrow> material \<Rightarrow> string list \<Rightarrow> KeyBundle \<Rightarrow> (exn + unit) \<times> KeyBundle" where
  "do_local_der_loop w ktype bkey [] kb = (Inr (), kb)"
| "do_local_der_loop w ktype bkey (u # us) kb =
     (case K2C ktype of
        None \<Rightarrow> (Inl KeyError, kb)
      | Some c \<Rightarrow>
          (let k0 = default_key c;
               k1 = set_base k0 ((base k0)\<lparr>key := bkey\<rparr>)
           in case decomp w k1 of
                Inl ex \<Rightarrow> (Inl ex, kb)
              | Inr k2 \<Rightarrow>
                  do_local_der_loop w ktype bkey us
                    (kb\<lparr>kb_keys := kb_keys kb @ [set_base k2 ((base k2)\<lparr>use := u\<rparr>)]\<rparr>)))"

definition do_local_der ::
  "world \<Rightarrow> string \<Rightarrow> string \<Rightarrow> string list option \<Rightarrow> KeyBundle \<Rightarrow> (exn + unit) \<times> KeyBundle"
  where
  "do_local_der w filename ktype kusage kb =
     (case (if ktype = ''rsa''
            then (case rsa_load w filename of Inl ex \<Rightarrow> Inl ex | Inr h \<Rightarrow> Inr (RSA_obj h))
            else Inr NoneVal) of
        Inl ex \<Rightarrow> (Inl ex, kb)
      | Inr bkey \<Rightarrow>
          do_local_der_loop w ktype bkey
            (case kusage of
               None \<Rightarrow> [''enc'', ''sig'']
             | Some us \<Rightarrow> (if us = [] then [''enc'', ''sig''] else us))
            kb)"

text \<open>The request \<^verbatim>\<open>do_remote\<close> sends: the validator goes along when one is held.\<close>

definition request_of :: "KeyBundle \<Rightarrow> http_request" where
  "request_of kb =
     \<lparr>url = source kb, verify = verify_ssl kb,
      if_none_match = (if etag kb \<noteq> [] then Some (etag kb) else None)\<rparr>"

text \<open>
  \<^verbatim>\<open>do_remote\<close>: 304 only moves \<^verbatim>\<open>time_out\<close>, to the floating-point sum
  \<^verbatim>\<open>time.time() + self.cache_time\<close>; 200 moves it, loads the keys of the
  body and takes the \<^verbatim>\<open>Etag\<close> and \<^verbatim>\<open>Cache-Control\<close> headers that are present; any
  other status changes nothing. An exception of the HTTP client is not caught.
\<close>

definition do_remote :: "KeyBundle \<Rightarrow> world \<Rightarrow> (exn + unit) \<times> KeyBundle \<times> world" where
  "do_remote kb w =
     (case request (request_of kb) w of
        (Inl ex, w1) \<Rightarrow> (Inl ex, kb, w1)
      | (Inr r, w1) \<Rightarrow>
          (if status_code r = 304 then
             (case time w1 of (t, w2) \<Rightarrow>
                (Inr (), kb\<lparr>time_out := float_add w2 t (cache_time kb)\<rparr>, w2))
           else if status_code r = 200 then
             (case time w1 of (t, w2) \<Rightarrow>
                (let kb1 = kb\<lparr>time_out := float_add w2 t (cache_time kb)\<rparr> in
                 case text_keys r of
                   Inl ex \<Rightarrow> (Inl ex, kb1, w2)
                 | Inr ks \<Rightarrow>
                     (case do_keys w2 ks kb1 of
                        (Inl ex, kb2) \<Rightarrow> (Inl ex, kb2, w2)
                      | (Inr u, kb2) \<Rightarrow>
                          (let kb3 = (case hdr_etag r of
                                        Some v \<Rightarrow> kb2\<lparr>etag := v\<rparr>
                                      | None \<Rightarrow> kb2);
                               kb4 = (case hdr_cache_control r of
                                        Some v \<Rightarrow> kb3\<lparr>cache_control := Some v\<rparr>
                                      | None \<Rightarrow> kb3)
                           in (Inr (), kb4, w2)))))
           else (Inr (), kb, w1)))"

text \<open>
  \<^verbatim>\<open>update\<close>: with a non-empty source, \<^verbatim>\<open>_keys\<close> is emptied and everything is read
  again, from the file or from the URL.
\<close>

definition update :: "KeyBundle \<Rightarrow> world \<Rightarrow> (exn + unit) \<times> KeyBundle \<times> world" where
  "update kb w =
     (case source kb of
        None \<Rightarrow> (Inr (), kb, w)
      | Some src \<Rightarrow>
          (if src \<noteq> [] then
             (let kb0 = kb\<lparr>kb_keys := []\<rparr> in
              if \<not> remote kb0 then
                (if fileformat kb0 = ''jwk'' then
                   (case do_local_jwk w src kb0 of (r, kb1) \<Rightarrow> (r, kb1, w))
                 else if fileformat kb0 = ''der'' then
                   (case do_local_der w src (keytype kb0) (keyusage kb0) kb0 of
                      (r, kb1) \<Rightarrow> (r, kb1, w))
                 else (Inr (), kb0, w))
              else do_remote kb0 w)
           else (Inr (), kb, w)))"

text \<open>
  \<^verbatim>\<open>self._keys is not []\<close> compares the identity of \<^verbatim>\<open>_keys\<close> with that of a list
  created on the spot: it is true for every list, empty or not.
\<close>

definition is_not_new_list :: "key_obj list \<Rightarrow> bool" where
  "is_not_new_list ks = True"

text \<open>\<^verbatim>\<open>_uptodate\<close>.\<close>

definition uptodate :: "KeyBundle \<Rightarrow> world \<Rightarrow> (exn + unit) \<times> KeyBundle \<times> world" where
  "uptodate kb w =
     (if is_not_new_list (kb_keys kb) then
        (if remote kb then
           (case time w of (t, w1) \<Rightarrow>
              (if t > time_out kb then update kb w1 else (Inr (), kb, w1)))
         else (Inr (), kb, w))
      else if remote kb then update kb w
      else (Inr (), kb, w))"

text \<open>\<^verbatim>\<open>KeyBundle.get(typ)\<close>.\<close>

definition KeyBundle_get ::
  "KeyBundle \<Rightarrow> string \<Rightarrow> world \<Rightarrow> (exn + key_obj list) \<times> KeyBundle \<times> world" where
  "KeyBundle_get kb typ w =
     (case uptodate kb w of
        (Inl ex, kb1, w1) \<Rightarrow> (Inl ex, kb1, w1)
      | (Inr u, kb1, w1) \<Rightarrow>
          (if typ \<noteq> [] then
             (Inr (filter (\<lambda>k. kty (base k) = lower typ) (kb_keys kb1)), kb1, w1)
           else (Inr (kb_keys kb1), kb1, w1)))"

text \<open>\<^verbatim>\<open>KeyBundle.keys()\<close>.\<close>

definition KeyBundle_keys ::
  "KeyBundle \<Rightarrow> world \<Rightarrow> (exn + key_obj list) \<times> KeyBundle \<times> world" where
  "KeyBundle_keys kb w =
     (case uptodate kb w of
        (Inl ex, kb1, w1) \<Rightarrow> (Inl ex, kb1, w1)
      | (Inr u, kb1, w1) \<Rightarrow> (Inr (kb_keys kb1), kb1, w1))"

text \<open>
  \<^verbatim>\<open>KeyBundle.remove(typ, val)\<close>: with a true \<open>val\<close> the keys of that kind and that
  material go, otherwise every key of that kind.
\<close>

definition KeyBundle_remove :: "KeyBundle \<Rightarrow> string \<Rightarrow> material \<Rightarrow> KeyBundle" where
  "KeyBundle_remove kb typ val =
     (if truthy val then
        kb\<lparr>kb_keys :=
             filter (\<lambda>k. \<not> (kty (base k) = lower typ \<and> key (base k) = val)) (kb_keys kb)\<rparr>
      else kb\<lparr>kb_keys := filter (\<lambda>k. \<not> kty (base k) = lower typ) (kb_keys kb)\<rparr>)"

text \<open>
  \<^verbatim>\<open>KeyBundle.__init__\<close>, for \<open>keys\<close> a list of dictionaries (\<^verbatim>\<open>None\<close> is the empty
  list here). An exception of the constructor leaves no object behind.
\<close>

definition KeyBundle_init ::
  "world \<Rightarrow> jwk list \<Rightarrow> string \<Rightarrow> real \<Rightarrow> bool \<Rightarrow> string \<Rightarrow> string \<Rightarrow> string list option
     \<Rightarrow> exn + KeyBundle" where
  "KeyBundle_init w keys src ctime vssl ffmt ktype kusage =
     (let kb = \<lparr>kb_keys = [], remote = False, verify_ssl = vssl, cache_time = ctime,
                time_out = 0, etag = [], cache_control = None, source = None,
                fileformat = lower ffmt, keytype = lower ktype, keyusage = kusage\<rparr>
      in if keys \<noteq> [] then
           (case do_keys w keys kb of (Inl ex, kb1) \<Rightarrow> Inl ex | (Inr u, kb1) \<Rightarrow> Inr kb1)
         else if startswith src ''file://'' then
           (let kb1 = kb\<lparr>source := Some (drop 7 src)\<rparr> in
            if fileformat kb1 = ''jwk'' then
              (case do_local_jwk w (drop 7 src) kb1 of
                 (Inl ex, kb2) \<Rightarrow> Inl ex
               | (Inr u, kb2) \<Rightarrow> Inr kb2)
            else if fileformat kb1 = ''der'' then
              (case do_local_der w (drop 7 src) (keytype kb1) (keyusage kb1) kb1 of
                 (Inl ex, kb2) \<Rightarrow> Inl ex
               | (Inr u, kb2) \<Rightarrow> Inr kb2)
            else Inr kb1)
         else if startswith src ''http://'' \<or> startswith src ''https://'' then
           Inr (kb\<lparr>source := Some src, remote := True\<rparr>)
         else if src = [] then Inr kb
         else Inl (Failure (''Unsupported source type: '' @ src)))"

section \<open>KeyJar\<close>

text \<open>
  A \<^verbatim>\<open>KeyJar\<close> holds references to \<^verbatim>\<open>KeyBundle\<close> objects, which its methods mutate
  through those references. The state is therefore a store of bundles by address
  (\<open>heap\<close>, with \<open>heap_next\<close> the next free address), the jar's dictionary
  \<^verbatim>\<open>issuer_keys\<close> from issuer to the list of its bundles' addresses, and the world.
\<close>

record state =
  heap :: "nat \<Rightarrow> KeyBundle"
  heap_next :: nat
  issuer_keys :: "string \<Rightarrow> nat list option"
  env :: world

text \<open>
  The dictionary \<^verbatim>\<open>KeyJar.get\<close> returns, from kind to the list of key material, as
  an association list in the order the kinds were first stored. Python leaves the
  order of a dictionary's items open; the results below read a dictionary by lookup
  (\<open>map_of\<close>), which does not depend on it.
\<close>

type_synonym keydict = "(string \<times> material list) list"

text \<open>
  The list a dictionary holds under a kind, empty when the kind is absent
  (\<^verbatim>\<open>d.get(t, [])\<close>).
\<close>

definition dict_get :: "keydict \<Rightarrow> string \<Rightarrow> material list" where
  "dict_get d t = (case map_of d t of Some l \<Rightarrow> l | None \<Rightarrow> [])"

text \<open>\<^verbatim>\<open>res[t].append(v)\<close>, and \<^verbatim>\<open>res[t] = [v]\<close> on a \<^verbatim>\<open>KeyError\<close>.\<close>

fun dict_append :: "keydict \<Rightarrow> string \<Rightarrow> material \<Rightarrow> keydict" where
  "dict_append [] t v = [(t, [v])]"
| "dict_append ((a, l) # res) t v =
     (if a = t then (a, l @ [v]) # res else (a, l) # dict_append res t v)"

text \<open>\<^verbatim>\<open>keys[t].extend(val)\<close>, and \<^verbatim>\<open>keys[t] = val\<close> on a \<^verbatim>\<open>KeyError\<close>.\<close>

fun dict_extend :: "keydict \<Rightarrow> string \<Rightarrow> material list \<Rightarrow> keydict" where
  "dict_extend [] t vs = [(t, vs)]"
| "dict_extend ((a, l) # res) t vs =
     (if a = t then (a, l @ vs) # res else (a, l) # dict_extend res t vs)"

text \<open>
  \<^verbatim>\<open>KeyJar.add\<close>: a bundle for the URL, created without certificate verification
  when the URL names localhost, appended to the issuer's list (a new list when the
  issuer has none).
\<close>

definition KeyJar_add :: "string \<Rightarrow> string \<Rightarrow> state \<Rightarrow> (exn + nat) \<times> state" where
  "KeyJar_add issuer u s =
     (case (if str_in ''/localhost:'' u \<or> str_in ''/localhost/'' u
            then KeyBundle_init (env s) [] u 300 False ''jwk'' ''rsa'' None
            else KeyBundle_init (env s) [] u 300 True ''jwk'' ''rsa'' None) of
        Inl ex \<Rightarrow> (Inl ex, s)
      | Inr kc \<Rightarrow>
          (Inr (heap_next s),
           s\<lparr>heap := (heap s)(heap_next s := kc),
             heap_next := Suc (heap_next s),
             issuer_keys :=
               (issuer_keys s)(issuer \<mapsto>
                  (case issuer_keys s issuer of
                     Some l \<Rightarrow> l @ [heap_next s]
                   | None \<Rightarrow> [heap_next s]))\<rparr>))"

text \<open>
  The loop of \<^verbatim>\<open>KeyJar.add_hmac\<close>: for each usage a bundle with one symmetric key
  is appended to \<^verbatim>\<open>self.issuer_keys[""]\<close>; the list is looked up before the bundle
  is built.
\<close>

fun add_hmac_loop :: "string \<Rightarrow> string list \<Rightarrow> state \<Rightarrow> (exn + unit) \<times> state" where
  "add_hmac_loop secret [] s = (Inr (), s)"
| "add_hmac_loop secret (u # us) s =
     (case issuer_keys s [] of
        None \<Rightarrow> (Inl KeyError, s)
      | Some l \<Rightarrow>
          (case KeyBundle_init (env s)
                  [[(''kty'', ''hmac''), (''key'', secret), (''use'', u)]]
                  [] 300 True ''jwk'' ''rsa'' None of
             Inl ex \<Rightarrow> (Inl ex, s)
           | Inr kb \<Rightarrow>
               add_hmac_loop secret us
                 (s\<lparr>heap := (heap s)(heap_next s := kb),
                    heap_next := Suc (heap_next s),
                    issuer_keys := (issuer_keys s)([] \<mapsto> l @ [heap_next s])\<rparr>)))"

text \<open>\<^verbatim>\<open>KeyJar.add_hmac\<close>.\<close>

definition KeyJar_add_hmac ::
  "string \<Rightarrow> string \<Rightarrow> string list \<Rightarrow> state \<Rightarrow> (exn + unit) \<times> state" where
  "KeyJar_add_hmac issuer secret usage s =
     add_hmac_loop secret usage
       (if issuer_keys s issuer = None
        then s\<lparr>issuer_keys := (issuer_keys s)(issuer \<mapsto> [])\<rparr>
        else s)"

text \<open>\<^verbatim>\<open>KeyJar.add_kb\<close>, for the bundle at address \<open>a\<close>.\<close>

definition KeyJar_add_kb :: "string \<Rightarrow> nat \<Rightarrow> state \<Rightarrow> state" where
  "KeyJar_add_kb issuer a s =
     s\<lparr>issuer_keys :=
         (issuer_keys s)(issuer \<mapsto>
            (case issuer_keys s issuer of Some l \<Rightarrow> l @ [a] | None \<Rightarrow> [a]))\<rparr>"

text \<open>\<^verbatim>\<open>KeyJar.__contains__\<close>.\<close>

definition contains :: "state \<Rightarrow> string \<Rightarrow> bool" where
  "contains s item = (issuer_keys s item \<noteq> None)"

text \<open>
  The loop of \<^verbatim>\<open>KeyJar.get\<close> for a given key type: the material of the keys of that
  type and usage, bundle after bundle. Reading a bundle may refresh it.
\<close>

fun get_typed_loop ::
  "string \<Rightarrow> string \<Rightarrow> nat list \<Rightarrow> material list \<Rightarrow> state \<Rightarrow> (exn + material list) \<times> state"
  where
  "get_typed_loop u ktype [] lst s = (Inr lst, s)"
| "get_typed_loop u ktype (a # as) lst s =
     (case KeyBundle_get (heap s a) ktype (env s) of
        (Inl ex, kb1, w1) \<Rightarrow> (Inl ex, s\<lparr>heap := (heap s)(a := kb1), env := w1\<rparr>)
      | (Inr ks, kb1, w1) \<Rightarrow>
          get_typed_loop u ktype as
            (lst @ map (\<lambda>k. key (base k)) (filter (\<lambda>k. u = use (base k)) ks))
            (s\<lparr>heap := (heap s)(a := kb1), env := w1\<rparr>))"

text \<open>The inner loop without a key type: the material goes under the key's kind.\<close>

fun collect :: "string \<Rightarrow> key_obj list \<Rightarrow> keydict \<Rightarrow> keydict" where
  "collect u [] res = res"
| "collect u (k # ks) res =
     collect u ks
       (if u = use (base k) then dict_append res (kty (base k)) (key (base k)) else res)"

fun get_untyped_loop ::
  "string \<Rightarrow> nat list \<Rightarrow> keydict \<Rightarrow> state \<Rightarrow> (exn + keydict) \<times> state" where
  "get_untyped_loop u [] res s = (Inr res, s)"
| "get_untyped_loop u (a # as) res s =
     (case KeyBundle_keys (heap s a) (env s) of
        (Inl ex, kb1, w1) \<Rightarrow> (Inl ex, s\<lparr>heap := (heap s)(a := kb1), env := w1\<rparr>)
      | (Inr ks, kb1, w1) \<Rightarrow>
          get_untyped_loop u as (collect u ks res)
            (s\<lparr>heap := (heap s)(a := kb1), env := w1\<rparr>))"

text \<open>
  The bundle list \<^verbatim>\<open>KeyJar.get\<close> works on: for a non-empty issuer the exact entry,
  else the entry with the final slash removed or added, else the empty list; for the
  empty issuer the plain lookup \<^verbatim>\<open>self.issuer_keys[issuer]\<close>, whose \<^verbatim>\<open>KeyError\<close> is
  not caught.
\<close>

definition issuer_bundles :: "state \<Rightarrow> string \<Rightarrow> exn + nat list" where
  "issuer_bundles s issuer =
     (if issuer \<noteq> [] then
        (case issuer_keys s issuer of
           Some l \<Rightarrow> Inr l
         | None \<Rightarrow>
             (if endswith issuer ''/'' then
                (case issuer_keys s (butlast issuer) of Some l \<Rightarrow> Inr l | None \<Rightarrow> Inr [])
              else
                (case issuer_keys s (issuer @ ''/'') of Some l \<Rightarrow> Inr l | None \<Rightarrow> Inr [])))
      else (case issuer_keys s issuer of Some l \<Rightarrow> Inr l | None \<Rightarrow> Inl KeyError))"

text \<open>\<^verbatim>\<open>KeyJar.get(use, key_type, issuer)\<close>.\<close>

definition KeyJar_get ::
  "string \<Rightarrow> string \<Rightarrow> string \<Rightarrow> state \<Rightarrow> (exn + keydict) \<times> state" where
  "KeyJar_get use0 key_type issuer s =
     (let u = (if use0 = ''dec'' then ''enc'' else if use0 = ''ver'' then ''sig'' else use0)
      in case issuer_bundles s issuer of
           Inl ex \<Rightarrow> (Inl ex, s)
         | Inr bundles \<Rightarrow>
             (if bundles \<noteq> [] then
                (if key_type \<noteq> [] then
                   (case get_typed_loop u key_type bundles [] s of
                      (Inl ex, s1) \<Rightarrow> (Inl ex, s1)
                    | (Inr lst, s1) \<Rightarrow> (Inr [(key_type, lst)], s1))
                 else get_untyped_loop u bundles [] s)
              else (Inr [], s)))"

text \<open>
  \<^verbatim>\<open>getattr(self, "get_%s_key" % var)\<close>: the four getters, each \<^verbatim>\<open>KeyJar.get\<close> with
  its usage; any other name is an \<^verbatim>\<open>AttributeError\<close>.
\<close>

definition getter_use :: "string \<Rightarrow> string option" where
  "getter_use var =
     (if var = ''signing'' then Some ''sig''
      else if var = ''verify'' then Some ''ver''
      else if var = ''encrypt'' then Some ''enc''
      else if var = ''decrypt'' then Some ''dec''
      else None)"

text \<open>
  The loop of \<^verbatim>\<open>x_keys\<close> over the items of the own keys: a non-empty list is
  appended to the list of its kind, or stored when the kind is new.
\<close>

fun x_keys_loop :: "keydict \<Rightarrow> keydict \<Rightarrow> keydict" where
  "x_keys_loop [] keys = keys"
| "x_keys_loop ((t, val) # rest) keys =
     x_keys_loop rest (if val = [] then keys else dict_extend keys t val)"

text \<open>\<^verbatim>\<open>KeyJar.x_keys(var, part)\<close>.\<close>

definition x_keys :: "string \<Rightarrow> string \<Rightarrow> state \<Rightarrow> (exn + keydict) \<times> state" where
  "x_keys var part s =
     (case getter_use var of
        None \<Rightarrow> (Inl AttributeError, s)
      | Some u \<Rightarrow>
          (case KeyJar_get u [] part s of
             (Inl ex, s1) \<Rightarrow> (Inl ex, s1)
           | (Inr keys, s1) \<Rightarrow>
               (case KeyJar_get u [] [] s1 of
                  (Inl ex, s2) \<Rightarrow> (Inl ex, s2)
                | (Inr own, s2) \<Rightarrow> (Inr (x_keys_loop own keys), s2))))"

definition verify_keys :: "string \<Rightarrow> state \<Rightarrow> (exn + keydict) \<times> state" where
  "verify_keys part s = x_keys ''verify'' part s"

definition decrypt_keys :: "string \<Rightarrow> state \<Rightarrow> (exn + keydict) \<times> state" where
  "decrypt_keys part s = x_keys ''decrypt'' part s"

text \<open>
  The loop of \<^verbatim>\<open>KeyJar.remove_key\<close>, by the position \<open>i\<close> of the list iterator: the
  bundle at \<open>i\<close> drops the keys, and when none is left its first occurrence is
  removed from the list being iterated.
\<close>

function remove_key_loop :: "nat \<Rightarrow> string \<Rightarrow> string \<Rightarrow> material \<Rightarrow> state \<Rightarrow> state" where
  "remove_key_loop i issuer key_type val s =
     (case issuer_keys s issuer of
        None \<Rightarrow> s
      | Some kcs \<Rightarrow>
          (if i < length kcs then
             (let a = kcs ! i;
                  kb1 = KeyBundle_remove (heap s a) key_type val;
                  s1 = s\<lparr>heap := (heap s)(a := kb1)\<rparr>;
                  s2 = (if length (kb_keys kb1) = 0
                        then s1\<lparr>issuer_keys := (issuer_keys s1)(issuer \<mapsto> remove1 a kcs)\<rparr>
                        else s1)
              in remove_key_loop (Suc i) issuer key_type val s2)
           else s))"
  by pat_completeness auto
termination
proof (relation "measure (\<lambda>(i, issuer, key_type, val, s).
          (case issuer_keys s issuer of None \<Rightarrow> 0 | Some kcs \<Rightarrow> length kcs - i))")
  show "wf (measure (\<lambda>(i, issuer, key_type, val, s).
          (case issuer_keys s issuer of None \<Rightarrow> 0 | Some kcs \<Rightarrow> length kcs - i)))"
    by simp
next
  fix i :: nat and issuer key_type :: string and val :: material and s :: state
    and kcs a kb1 s1 s2
  assume l: "issuer_keys s issuer = Some kcs" and i: "i < length kcs"
    and a: "a = kcs ! i"
    and kb1: "kb1 = KeyBundle_remove (heap s a) key_type val"
    and s1: "s1 = s\<lparr>heap := (heap s)(a := kb1)\<rparr>"
    and s2: "s2 = (if length (kb_keys kb1) = 0
                  then s1\<lparr>issuer_keys := (issuer_keys s1)(issuer \<mapsto> remove1 a kcs)\<rparr>
                  else s1)"
  have "a \<in> set kcs" using a i by simp
  then have "length (remove1 a kcs) = length kcs - 1"
    by (simp add: length_remove1)
  then show "((Suc i, issuer, key_type, val, s2), (i, issuer, key_type, val, s)) \<in>
      measure (\<lambda>(i, issuer, key_type, val, s).
          (case issuer_keys s issuer of None \<Rightarrow> 0 | Some kcs \<Rightarrow> length kcs - i))"
    using l i s1 s2 by auto
qed

text \<open>\<^verbatim>\<open>KeyJar.remove_key\<close>.\<close>

definition KeyJar_remove_key :: "string \<Rightarrow> string \<Rightarrow> material \<Rightarrow> state \<Rightarrow> state" where
  "KeyJar_remove_key issuer key_type val s =
     (case issuer_keys s issuer of
        None \<Rightarrow> s
      | Some kcs \<Rightarrow> remove_key_loop 0 issuer key_type val s)"

section \<open>Concrete inputs\<close>

text \<open>The class of a key object (\<^verbatim>\<open>type(k)\<close>).\<close>

fun class_of :: "key_obj \<Rightarrow> key_class" where
  "class_of (RSA_key b n0 e0) = RSA_class"
| "class_of (EC_key b c0 x0 y0) = EC_class"
| "class_of (HMAC_key b) = HMAC_class"

text \<open>
  A world with a given clock and HTTP server, no readable files, a crypto library
  that builds the RSA key object number 7, and sums that need no rounding (as those of
  the whole numbers used below).
\<close>

definition a_world ::
  "(nat \<Rightarrow> real) \<Rightarrow> (nat \<Rightarrow> http_request \<Rightarrow> exn + response) \<Rightarrow> world" where
  "a_world clk srv =
     \<lparr>clock = clk, ticks = 0, float_add = (\<lambda>x y. x + y), http = srv, sent = [],
      jwks_file = (\<lambda>f. Inl IOError), rsa_load = (\<lambda>f. Inl IOError),
      new_pub_key = (\<lambda>e0 n0. Inr 7), b64_n = (\<lambda>h. ''n7''), b64_e = (\<lambda>h. ''AQAB'')\<rparr>"

definition offline :: "nat \<Rightarrow> http_request \<Rightarrow> exn + response" where
  "offline i rq = Inl RequestException"

definition an_rsa_key :: key_obj where
  "an_rsa_key =
     RSA_key \<lparr>key = RSA_obj 3, kty = ''rsa'', alg = [], use = ''sig'', kid = ''k1''\<rparr>
       ''n3'' ''AQAB''"

definition an_hmac_key :: key_obj where
  "an_hmac_key =
     HMAC_key \<lparr>key = Str ''secret'', kty = ''hmac'', alg = [], use = ''sig'', kid = []\<rparr>"

text \<open>A server that answers every request with the given status and key set.\<close>

definition answers :: "int \<Rightarrow> jwk list \<Rightarrow> nat \<Rightarrow> http_request \<Rightarrow> exn + response" where
  "answers code ks i rq =
     Inr \<lparr>status_code = code, text_keys = Inr ks, hdr_etag = None, hdr_cache_control = None\<rparr>"

definition a_jwks :: "jwk list" where
  "a_jwks = [[(''kty'', ''hmac''), (''key'', ''secret''), (''use'', ''sig'')]]"

text \<open>
  A remote bundle that holds one key and a validator, with a time to live of 300
  seconds, last refreshed so that it expires at time 100.
\<close>

definition a_bundle :: KeyBundle where
  "a_bundle =
     \<lparr>kb_keys = [an_hmac_key], remote = True, verify_ssl = True, cache_time = 300,
      time_out = 100, etag = ''v1'', cache_control = None,
      source = Some ''https://idp.example/jwks'', fileformat = ''jwk'', keytype = ''rsa'',
      keyusage = None\<rparr>"

text \<open>
  The issuer identity with its trailing slash toggled, in the specification's words:
  removed if present, added if absent.
\<close>

definition toggle_slash :: "string \<Rightarrow> string" where
  "toggle_slash i = (if endswith i ''/'' then butlast i else i @ ''/'')"

text \<open>The bundle \<^verbatim>\<open>KeyBundle()\<close>, and an in-memory bundle with one key.\<close>

definition blank_bundle :: KeyBundle where
  "blank_bundle =
     \<lparr>kb_keys = [], remote = False, verify_ssl = True, cache_time = 300, time_out = 0,
      etag = [], cache_control = None, source = None, fileformat = ''jwk'',
      keytype = ''rsa'', keyusage = None\<rparr>"

definition a_local_bundle :: KeyBundle where
  "a_local_bundle = blank_bundle\<lparr>kb_keys := [an_hmac_key]\<rparr>"

text \<open>
  A jar with the given entries, over a store that holds the given bundles at their
  addresses.
\<close>

definition a_jar :: "(string \<times> nat list) list \<Rightarrow> (nat \<times> KeyBundle) list \<Rightarrow> state" where
  "a_jar entries bundles =
     \<lparr>heap = (\<lambda>a. case map_of bundles a of Some kb \<Rightarrow> kb | None \<Rightarrow> blank_bundle),
      heap_next = length bundles, issuer_keys = map_of entries,
      env = a_world (\<lambda>i. 0) offline\<rparr>"

text \<open>
  A jar in which the issuer \<open>https://idp.example\<close> holds two RSA signing keys and
  the jar's owner one, equal to the issuer's first.
\<close>

definition another_rsa_key :: key_obj where
  "another_rsa_key =
     RSA_key \<lparr>key = RSA_obj 4, kty = ''rsa'', alg = [], use = ''sig'', kid = ''k2''\<rparr>
       ''n4'' ''AQAB''"

definition two_party_jar :: state where
  "two_party_jar =
     a_jar [(''https://idp.example'', [0]), ([], [1])]
       [(0, blank_bundle\<lparr>kb_keys := [an_rsa_key, another_rsa_key]\<rparr>),
        (1, blank_bundle\<lparr>kb_keys := [an_rsa_key]\<rparr>)]"


text \<open>
  The same jar with the issuer's two keys in the remote bundle \<open>a_bundle\<close>, which
  expired at time 100, in a given world.
\<close>

definition a_stale_jar :: "world \<Rightarrow> state" where
  "a_stale_jar w =
     (a_jar [(''https://idp.example'', [0]), ([], [1])]
        [(0, a_bundle\<lparr>kb_keys := [an_rsa_key, another_rsa_key]\<rparr>),
         (1, blank_bundle\<lparr>kb_keys := [an_rsa_key]\<rparr>)])\<lparr>env := w\<rparr>"

text \<open>
  A world at time \<open>10^16\<close>, where the doubles are the even numbers: the sum of
  \<open>10^16\<close> and 3 is rounded to \<open>10^16 + 4\<close>.
\<close>

definition rounds_up :: "real \<Rightarrow> real \<Rightarrow> real" where
  "rounds_up x y =
     (if x = 10000000000000000 \<and> y = 3 then 10000000000000004 else x + y)"

definition a_late_world :: "(nat \<Rightarrow> http_request \<Rightarrow> exn + response) \<Rightarrow> world" where
  "a_late_world srv = (a_world (\<lambda>i. 10000000000000000) srv)\<lparr>float_add := rounds_up\<rparr>"

section \<open>Serialized keys\<close>

lemma map_of_to_dict_loop:
  "map_of (to_dict_loop k as res) a =
     (case map_of res a of
        Some v \<Rightarrow> Some v
      | None \<Rightarrow>
          (if a \<in> set as
           then (case getattr k a of Some v \<Rightarrow> if v \<noteq> [] then Some v else None | None \<Rightarrow> None)
           else None))"
  by (induction as arbitrary: res) (auto simp: map_add_def split: option.splits)

lemma kwarg_to_dict:
  "kwarg (to_dict k) a d =
     (if a \<in> set (members k)
      then (case getattr k a of Some v \<Rightarrow> if v \<noteq> [] then v else d | None \<Rightarrow> d)
      else d)"
  by (simp add: kwarg_def to_dict_def map_of_to_dict_loop split: option.splits)

lemma list_all_to_dict_loop:
  "list_all (\<lambda>(a, v). a \<in> S) res \<Longrightarrow> set as \<subseteq> S \<Longrightarrow>
     list_all (\<lambda>(a, v). a \<in> S) (to_dict_loop k as res)"
  by (induction as arbitrary: res) (auto split: option.splits)

lemma decode_rsa:
  assumes t: "kty b = ''rsa''"
    and lib: "n0 \<noteq> [] \<and> e0 \<noteq> [] \<longrightarrow> new_pub_key w e0 n0 = Inr h"
  shows "key_of_jwk w (to_dict (RSA_key b n0 e0)) =
     Inr (RSA_key (b\<lparr>key := (if n0 \<noteq> [] \<and> e0 \<noteq> [] then RSA_obj h else Str [])\<rparr>) n0 e0)"
proof -
  let ?k = "RSA_key b n0 e0"
  have la: "list_all (\<lambda>(a, v). a \<in> set [''kty'', ''alg'', ''use'', ''kid'', ''n'', ''e'', ''key''])
     (to_dict ?k)"
    unfolding to_dict_def by (rule list_all_to_dict_loop) simp_all
  have m: "map_of (to_dict ?k) ''kty'' = Some ''rsa''"
    by (simp add: to_dict_def map_of_to_dict_loop getattr_def t)
  have c: "construct RSA_class (to_dict ?k) = Inr (RSA_key (b\<lparr>key := Str []\<rparr>) n0 e0)"
    using la by (simp add: construct_def kwarg_to_dict getattr_def Key_init_def t lower_def
        lower_char_def)
  show ?thesis
    using lib by (simp add: key_of_jwk_def m c K2C_def lower_def lower_char_def)
qed

lemma decode_ec:
  assumes t: "kty b = ''ec''"
  shows "key_of_jwk w (to_dict (EC_key b c0 x0 y0)) = Inr (EC_key (b\<lparr>key := Str []\<rparr>) c0 x0 y0)"
proof -
  let ?k = "EC_key b c0 x0 y0"
  have la: "list_all
     (\<lambda>(a, v). a \<in> set [''kty'', ''alg'', ''use'', ''kid'', ''crv'', ''x'', ''y'', ''key''])
     (to_dict ?k)"
    unfolding to_dict_def by (rule list_all_to_dict_loop) simp_all
  have m: "map_of (to_dict ?k) ''kty'' = Some ''ec''"
    by (simp add: to_dict_def map_of_to_dict_loop getattr_def t)
  have c: "construct EC_class (to_dict ?k) = Inr (EC_key (b\<lparr>key := Str []\<rparr>) c0 x0 y0)"
    using la by (simp add: construct_def kwarg_to_dict getattr_def Key_init_def t lower_def
        lower_char_def)
  show ?thesis
    by (simp add: key_of_jwk_def m c K2C_def lower_def lower_char_def)
qed

lemma decode_hmac:
  assumes t: "kty b = ''hmac''"
  shows "key_of_jwk w (to_dict (HMAC_key b)) = Inr (HMAC_key (b\<lparr>key := Str []\<rparr>))"
proof -
  let ?k = "HMAC_key b"
  have la: "list_all (\<lambda>(a, v). a \<in> set [''kty'', ''alg'', ''use'', ''kid'', ''key''])
     (to_dict ?k)"
    unfolding to_dict_def by (rule list_all_to_dict_loop) simp_all
  have m: "map_of (to_dict ?k) ''kty'' = Some ''hmac''"
    by (simp add: to_dict_def map_of_to_dict_loop getattr_def t)
  have c: "construct HMAC_class (to_dict ?k) = Inr (HMAC_key (b\<lparr>key := Str []\<rparr>))"
    using la by (simp add: construct_def kwarg_to_dict getattr_def Key_init_def t lower_def
        lower_char_def)
  show ?thesis
    by (simp add: key_of_jwk_def m c K2C_def lower_def lower_char_def)
qed

text \<open>
  C9, as amended. Let \<open>k\<close> be a key whose kind is the tag of its own class (\<open>rsa\<close>
  for an \<^verbatim>\<open>RSA_key\<close>, \<open>ec\<close> for an \<^verbatim>\<open>EC_key\<close>, \<open>hmac\<close> for an \<^verbatim>\<open>HMAC_key\<close>), and let
  the crypto library build the key object \<open>h\<close> from \<open>e\<close> and \<open>n\<close> when \<open>k\<close> is an RSA
  key with both. Then decoding \<open>to_dict k\<close> succeeds and yields \<open>k\<close> itself but for the
  key material: same class, same \<open>kty\<close>, \<open>alg\<close>, \<open>use\<close>, \<open>kid\<close>, same \<open>n\<close> and \<open>e\<close>,
  same \<open>crv\<close>, \<open>x\<close> and \<open>y\<close>. The material is not part of the serialized map: the
  decoded EC or HMAC key has the empty string for it (the raw secret is not
  reproduced), the decoded RSA key the rebuilt public key.
\<close>

theorem decode_to_dict:
  assumes tag: "K2C (kty (base k)) = Some (class_of k)"
    and lib: "\<forall>b n0 e0. k = RSA_key b n0 e0 \<and> n0 \<noteq> [] \<and> e0 \<noteq> [] \<longrightarrow>
                new_pub_key w e0 n0 = Inr h"
  shows "key_of_jwk w (to_dict k) =
     Inr (set_base k ((base k)\<lparr>key :=
            (case k of
               RSA_key b n0 e0 \<Rightarrow> if n0 \<noteq> [] \<and> e0 \<noteq> [] then RSA_obj h else Str []
             | EC_key b c0 x0 y0 \<Rightarrow> Str []
             | HMAC_key b \<Rightarrow> Str [])\<rparr>))"
proof (cases k)
  case (RSA_key b n0 e0)
  with tag have t: "kty b = ''rsa''"
    by (auto simp: K2C_def split: if_splits)
  from lib RSA_key have "n0 \<noteq> [] \<and> e0 \<noteq> [] \<longrightarrow> new_pub_key w e0 n0 = Inr h"
    by blast
  from decode_rsa [OF t this] show ?thesis
    by (simp add: RSA_key)
next
  case (EC_key b c0 x0 y0)
  with tag have t: "kty b = ''ec''"
    by (auto simp: K2C_def split: if_splits)
  from decode_ec [OF t] show ?thesis
    by (simp add: EC_key)
next
  case (HMAC_key b)
  with tag have t: "kty b = ''hmac''"
    by (auto simp: K2C_def split: if_splits)
  from decode_hmac [OF t] show ?thesis
    by (simp add: HMAC_key)
qed


text \<open>
  The theorem at an RSA key that holds the key object 3: the decoded key has the same
  attributes and the key object 7 the library built.
\<close>

theorem decode_to_dict_witness:
  "K2C (kty (base an_rsa_key)) = Some (class_of an_rsa_key) \<and>
   new_pub_key (a_world (\<lambda>i. 0) offline) ''AQAB'' ''n3'' = Inr 7 \<and>
   key_of_jwk (a_world (\<lambda>i. 0) offline) (to_dict an_rsa_key) =
     Inr (RSA_key \<lparr>key = RSA_obj 7, kty = ''rsa'', alg = [], use = ''sig'', kid = ''k1''\<rparr>
            ''n3'' ''AQAB'')"
  using decode_to_dict [of an_rsa_key "a_world (\<lambda>i. 0) offline" 7]
  by (simp add: an_rsa_key_def a_world_def K2C_def)

text \<open>
  C9 as stated fails for a symmetric key: the serialized map of an HMAC key with the
  secret \<open>secret\<close> decodes to a key whose material is the empty string.
\<close>

theorem hmac_secret_not_serialized:
  "key (base an_hmac_key) = Str ''secret'' \<and>
   key_of_jwk (a_world (\<lambda>i. 0) offline) (to_dict an_hmac_key) =
     Inr (HMAC_key \<lparr>key = Str [], kty = ''hmac'', alg = [], use = ''sig'', kid = []\<rparr>)"
  by (simp add: an_hmac_key_def to_dict_def getattr_def key_of_jwk_def K2C_def construct_def
      kwarg_def Key_init_def lower_def lower_char_def)

section \<open>Refreshing a remote bundle\<close>

lemma request_of_keys [simp]: "request_of (kb\<lparr>kb_keys := ks\<rparr>) = request_of kb"
  by (simp add: request_of_def)

lemma do_keys_frame:
  "do_keys w ks kb = (r, kb') \<Longrightarrow> \<exists>new. kb' = kb\<lparr>kb_keys := kb_keys kb @ new\<rparr>"
proof (induction ks arbitrary: kb)
  case Nil
  then have "kb' = kb\<lparr>kb_keys := kb_keys kb @ []\<rparr>" by simp
  then show ?case by blast
next
  case (Cons inst rest)
  show ?case
  proof (cases "key_of_jwk w inst")
    case (Inl ex)
    with Cons.prems have "kb' = kb\<lparr>kb_keys := kb_keys kb @ []\<rparr>" by simp
    then show ?thesis by blast
  next
    case (Inr k)
    with Cons.prems have "do_keys w rest (kb\<lparr>kb_keys := kb_keys kb @ [k]\<rparr>) = (r, kb')"
      by simp
    from Cons.IH [OF this] obtain new where
      "kb' = kb\<lparr>kb_keys := kb_keys kb @ [k],
                kb_keys := kb_keys (kb\<lparr>kb_keys := kb_keys kb @ [k]\<rparr>) @ new\<rparr>"
      by blast
    then have "kb' = kb\<lparr>kb_keys := kb_keys kb @ (k # new)\<rparr>" by simp
    then show ?thesis by blast
  qed
qed

lemma do_keys_fields:
  assumes "do_keys w ks kb = (r, kb')"
  shows "remote kb' = remote kb" "source kb' = source kb" "cache_time kb' = cache_time kb"
    "time_out kb' = time_out kb" "verify_ssl kb' = verify_ssl kb" "etag kb' = etag kb"
    "cache_control kb' = cache_control kb"
  using do_keys_frame [OF assms] by auto

lemma KeyBundle_keys_get: "KeyBundle_keys kb w = KeyBundle_get kb [] w"
  by (simp add: KeyBundle_keys_def KeyBundle_get_def split: prod.splits sum.splits)

lemma get_after_uptodate:
  "snd (KeyBundle_get kb typ w) = snd (uptodate kb w)"
  by (simp add: KeyBundle_get_def split: prod.splits sum.splits)

text \<open>The world after the request of a refresh, whatever the outcome.\<close>

lemma do_remote_sent:
  "sent (snd (snd (do_remote kb w))) = sent w @ [request_of kb]"
  by (simp add: do_remote_def request_def time_def Let_def split: prod.splits sum.splits option.splits)

lemma uptodate_sent:
  assumes "remote kb" "source kb = Some src" "src \<noteq> []"
  shows "sent (snd (snd (uptodate kb w))) =
     (if time_out kb < clock w (ticks w) then sent w @ [request_of kb] else sent w)"
  using assms
  by (simp add: uptodate_def is_not_new_list_def time_def update_def do_remote_sent)

lemma do_remote_200:
  assumes "http w (length (sent w)) (request_of kb) = Inr r" "status_code r = 200"
    and "do_remote kb w = (res, kb1, w1)"
  shows "time_out kb1 = float_add w (clock w (ticks w)) (cache_time kb)"
    "remote kb1 = remote kb"
    "source kb1 = source kb" "cache_time kb1 = cache_time kb"
  using assms
  by (auto simp: do_remote_def request_def time_def Let_def
      split: sum.splits prod.splits option.splits dest: do_keys_fields)

lemma uptodate_refreshed:
  assumes "remote kb" "source kb = Some src" "src \<noteq> []" "time_out kb < clock w (ticks w)"
    and "http w (length (sent w)) (request_of kb) = Inr r" "status_code r = 200"
    and "uptodate kb w = (res, kb1, w1)"
  shows "remote kb1 \<and> source kb1 = Some src \<and> cache_time kb1 = cache_time kb \<and>
     time_out kb1 = float_add w (clock w (Suc (ticks w))) (cache_time kb)"
proof -
  let ?w = "w\<lparr>ticks := Suc (ticks w)\<rparr>" and ?kb = "kb\<lparr>kb_keys := []\<rparr>"
  from assms have dr: "do_remote ?kb ?w = (res, kb1, w1)"
    by (simp add: uptodate_def is_not_new_list_def time_def update_def)
  have h: "http ?w (length (sent ?w)) (request_of ?kb) = Inr r"
    using assms(5) by simp
  from do_remote_200 [OF h assms(6) dr] assms(1,2) show ?thesis by simp
qed


text \<open>
  C1, as amended. Let a remote bundle with a non-empty source be read when the clock
  is past its \<open>time_out\<close>, so that a refresh is attempted, and let the attempt fail.
  Then the bundle afterwards differs from the bundle before at most in its key list:
  \<open>time_out\<close>, \<open>etag\<close>, \<open>cache_control\<close> and every other attribute are as they
  were. When the server answers with a status other than 200 and 304, \<^verbatim>\<open>get\<close>
  returns a list and raises nothing; when the HTTP client raises, that exception
  leaves \<^verbatim>\<open>get\<close>. Nothing is said of the key list.
\<close>

theorem refresh_failure:
  assumes "remote kb" and "source kb = Some src" and "src \<noteq> []"
    and "time_out kb < clock w (ticks w)"
  shows "(\<forall>r. http w (length (sent w)) (request_of kb) = Inr r \<and>
              status_code r \<noteq> 200 \<and> status_code r \<noteq> 304 \<longrightarrow>
            (\<exists>ks. fst (KeyBundle_get kb typ w) = Inr ks) \<and>
            (fst (snd (KeyBundle_get kb typ w)))\<lparr>kb_keys := kb_keys kb\<rparr> = kb) \<and>
         (\<forall>ex. http w (length (sent w)) (request_of kb) = Inl ex \<longrightarrow>
            fst (KeyBundle_get kb typ w) = Inl ex \<and>
            (fst (snd (KeyBundle_get kb typ w)))\<lparr>kb_keys := kb_keys kb\<rparr> = kb) \<and>
         sent (snd (snd (KeyBundle_get kb typ w))) = sent w @ [request_of kb]"
proof (intro conjI)
  show "\<forall>r. http w (length (sent w)) (request_of kb) = Inr r \<and>
              status_code r \<noteq> 200 \<and> status_code r \<noteq> 304 \<longrightarrow>
            (\<exists>ks. fst (KeyBundle_get kb typ w) = Inr ks) \<and>
            (fst (snd (KeyBundle_get kb typ w)))\<lparr>kb_keys := kb_keys kb\<rparr> = kb"
    using assms
    by (simp add: KeyBundle_get_def uptodate_def is_not_new_list_def time_def update_def
        do_remote_def request_def)
next
  show "\<forall>ex. http w (length (sent w)) (request_of kb) = Inl ex \<longrightarrow>
            fst (KeyBundle_get kb typ w) = Inl ex \<and>
            (fst (snd (KeyBundle_get kb typ w)))\<lparr>kb_keys := kb_keys kb\<rparr> = kb"
    using assms
    by (simp add: KeyBundle_get_def uptodate_def is_not_new_list_def time_def update_def
        do_remote_def request_def)
next
  show "sent (snd (snd (KeyBundle_get kb typ w))) = sent w @ [request_of kb]"
    using uptodate_sent [OF assms(1-3), of w] assms(4)
    by (simp add: get_after_uptodate)
qed

text \<open>
  The theorem at the bundle \<open>a_bundle\<close> read at time 1000, with a server that answers
  500 and with a client that cannot connect.
\<close>

theorem refresh_failure_witness:
  "remote a_bundle \<and> source a_bundle = Some ''https://idp.example/jwks'' \<and>
   time_out a_bundle < clock (a_world (\<lambda>i. 1000) (answers 500 [])) 0 \<and>
   (\<exists>ks. fst (KeyBundle_get a_bundle [] (a_world (\<lambda>i. 1000) (answers 500 []))) = Inr ks) \<and>
   time_out (fst (snd (KeyBundle_get a_bundle [] (a_world (\<lambda>i. 1000) (answers 500 []))))) =
     100 \<and>
   etag (fst (snd (KeyBundle_get a_bundle [] (a_world (\<lambda>i. 1000) (answers 500 []))))) =
     ''v1'' \<and>
   fst (KeyBundle_get a_bundle [] (a_world (\<lambda>i. 1000) offline)) = Inl RequestException \<and>
   time_out (fst (snd (KeyBundle_get a_bundle [] (a_world (\<lambda>i. 1000) offline)))) = 100 \<and>
   sent (snd (snd (KeyBundle_get a_bundle [] (a_world (\<lambda>i. 1000) offline)))) =
     [request_of a_bundle]"
  using refresh_failure [of a_bundle "''https://idp.example/jwks''"
      "a_world (\<lambda>i. 1000) (answers 500 [])" "[]"]
    refresh_failure [of a_bundle "''https://idp.example/jwks''"
      "a_world (\<lambda>i. 1000) offline" "[]"]
  by (simp add: KeyBundle_get_def uptodate_def is_not_new_list_def time_def update_def
      do_remote_def request_def request_of_def a_bundle_def a_world_def answers_def
      offline_def)

text \<open>
  C1 as stated fails: after a refresh that got status 500 the bundle that held one key
  holds none, and a transport failure leaves \<^verbatim>\<open>get\<close> as an exception.
\<close>

theorem refresh_failure_drops_keys:
  "kb_keys a_bundle = [an_hmac_key] \<and>
   kb_keys (fst (snd (KeyBundle_get a_bundle [] (a_world (\<lambda>i. 1000) (answers 500 []))))) = [] \<and>
   fst (KeyBundle_get a_bundle [] (a_world (\<lambda>i. 1000) offline)) = Inl RequestException"
  by (simp add: KeyBundle_get_def uptodate_def is_not_new_list_def time_def update_def
      do_remote_def request_def request_of_def a_bundle_def a_world_def answers_def offline_def)

text \<open>
  C2 fails on the code. The bundle \<open>a_bundle\<close> holds one key and the validator \<open>v1\<close>;
  read at time 1000 it sends the conditional request, and the server answers 304.
  \<^verbatim>\<open>update\<close> has emptied \<^verbatim>\<open>_keys\<close> before \<^verbatim>\<open>do_remote\<close> runs, and the 304 branch
  only sets \<open>time_out\<close> to 1000 + 300: the bundle ends with no keys.
\<close>

theorem not_modified_drops_keys:
  "kb_keys a_bundle = [an_hmac_key] \<and>
   KeyBundle_get a_bundle [] (a_world (\<lambda>i. 1000) (answers 304 [])) =
     (Inr [], a_bundle\<lparr>kb_keys := [], time_out := 1300\<rparr>,
      (a_world (\<lambda>i. 1000) (answers 304 []))\<lparr>ticks := 2, sent := [request_of a_bundle]\<rparr>)"
  by (simp add: KeyBundle_get_def uptodate_def is_not_new_list_def time_def update_def
      do_remote_def request_def request_of_def a_bundle_def a_world_def answers_def)

text \<open>
  C3, as amended. For a remote bundle with a non-empty source, a read (\<^verbatim>\<open>get\<close> with
  any type, and \<^verbatim>\<open>keys\<close>, which is \<^verbatim>\<open>get\<close> with no type) sends exactly one request
  when the clock is strictly past \<open>time_out\<close>, and none when the key list is non-empty
  and the clock is at most \<open>time_out\<close>. In particular, after a read that refreshed
  the bundle with a 200 response and left it with at least one key, the expiry stored
  is the floating-point sum of the clock reading of the refresh and \<open>cache_time\<close>, as
  the machine rounds it; a second read, in any later world \<open>w2\<close>, sends no request
  when its clock reading is at most that sum, and exactly one when it is greater.
\<close>

theorem freshness_gating:
  assumes "remote kb" and "source kb = Some src" and "src \<noteq> []"
  shows "(time_out kb < clock w (ticks w) \<longrightarrow>
            sent (snd (snd (KeyBundle_get kb typ w))) = sent w @ [request_of kb]) \<and>
         (kb_keys kb \<noteq> [] \<and> clock w (ticks w) \<le> time_out kb \<longrightarrow>
            sent (snd (snd (KeyBundle_get kb typ w))) = sent w) \<and>
         KeyBundle_keys kb w = KeyBundle_get kb [] w \<and>
         (\<forall>r ks kb1 w1.
            time_out kb < clock w (ticks w) \<and>
            http w (length (sent w)) (request_of kb) = Inr r \<and> status_code r = 200 \<and>
            KeyBundle_get kb typ w = (Inr ks, kb1, w1) \<and> kb_keys kb1 \<noteq> [] \<longrightarrow>
            sent (snd (snd (KeyBundle_get kb1 typ2 w2))) =
              (if float_add w (clock w (Suc (ticks w))) (cache_time kb) < clock w2 (ticks w2)
               then sent w2 @ [request_of kb1] else sent w2))"
proof (intro conjI impI allI)
  assume "time_out kb < clock w (ticks w)"
  then show "sent (snd (snd (KeyBundle_get kb typ w))) = sent w @ [request_of kb]"
    using uptodate_sent [OF assms, of w] by (simp add: get_after_uptodate)
next
  assume "kb_keys kb \<noteq> [] \<and> clock w (ticks w) \<le> time_out kb"
  then show "sent (snd (snd (KeyBundle_get kb typ w))) = sent w"
    using uptodate_sent [OF assms, of w] by (simp add: get_after_uptodate)
next
  show "KeyBundle_keys kb w = KeyBundle_get kb [] w"
    by (rule KeyBundle_keys_get)
next
  fix r ks kb1 w1
  assume h: "time_out kb < clock w (ticks w) \<and>
            http w (length (sent w)) (request_of kb) = Inr r \<and> status_code r = 200 \<and>
            KeyBundle_get kb typ w = (Inr ks, kb1, w1) \<and> kb_keys kb1 \<noteq> []"
  then have "snd (uptodate kb w) = (kb1, w1)"
    using get_after_uptodate [of kb "typ" w] by simp
  then have "uptodate kb w = (fst (uptodate kb w), kb1, w1)"
    by (metis prod.collapse)
  from uptodate_refreshed [OF assms _ _ _ this] h
  have k: "remote kb1" "source kb1 = Some src"
    "time_out kb1 = float_add w (clock w (Suc (ticks w))) (cache_time kb)"
    by auto
  show "sent (snd (snd (KeyBundle_get kb1 typ2 w2))) =
      (if float_add w (clock w (Suc (ticks w))) (cache_time kb) < clock w2 (ticks w2)
       then sent w2 @ [request_of kb1] else sent w2)"
    using uptodate_sent [OF k(1,2) assms(3), of w2] k(3)
    by (simp add: get_after_uptodate)
qed


text \<open>
  The theorem at \<open>a_bundle\<close>: read at time 1000 it fetches once, read at time 99 it
  does not; after the refresh at time 1000 a read at time 1300 does not fetch and a
  read at time 1301 fetches once. And with a time to live of 3 seconds at time
  \<open>10^16\<close>, where the sum is rounded up to \<open>10^16 + 4\<close>: a read at \<open>10^16 + 4\<close>
  does not fetch, a read at \<open>10^16 + 6\<close> fetches once.
\<close>

theorem freshness_gating_witness:
  "remote a_bundle \<and> source a_bundle = Some ''https://idp.example/jwks'' \<and>
   time_out a_bundle < clock (a_world (\<lambda>i. 1000) (answers 200 a_jwks)) 0 \<and>
   sent (snd (snd (KeyBundle_get a_bundle [] (a_world (\<lambda>i. 1000) (answers 200 a_jwks))))) =
     [request_of a_bundle] \<and>
   clock (a_world (\<lambda>i. 99) (answers 200 a_jwks)) 0 \<le> time_out a_bundle \<and>
   sent (snd (snd (KeyBundle_get a_bundle [] (a_world (\<lambda>i. 99) (answers 200 a_jwks))))) = [] \<and>
   KeyBundle_keys a_bundle (a_world (\<lambda>i. 99) offline) =
     KeyBundle_get a_bundle [] (a_world (\<lambda>i. 99) offline) \<and>
   kb_keys (fst (snd (KeyBundle_get a_bundle [] (a_world (\<lambda>i. 1000) (answers 200 a_jwks))))) =
     [an_hmac_key] \<and>
   sent (snd (snd (KeyBundle_get
       (fst (snd (KeyBundle_get a_bundle [] (a_world (\<lambda>i. 1000) (answers 200 a_jwks)))))
       [] (a_world (\<lambda>i. 1300) offline)))) = [] \<and>
   sent (snd (snd (KeyBundle_get
       (fst (snd (KeyBundle_get a_bundle [] (a_world (\<lambda>i. 1000) (answers 200 a_jwks)))))
       [] (a_world (\<lambda>i. 1301) offline)))) = [request_of a_bundle] \<and>
   float_add (a_late_world (answers 200 a_jwks)) 10000000000000000 3 = 10000000000000004 \<and>
   time_out (fst (snd (KeyBundle_get (a_bundle\<lparr>cache_time := 3\<rparr>) []
       (a_late_world (answers 200 a_jwks))))) = 10000000000000004 \<and>
   sent (snd (snd (KeyBundle_get
       (fst (snd (KeyBundle_get (a_bundle\<lparr>cache_time := 3\<rparr>) []
          (a_late_world (answers 200 a_jwks)))))
       [] (a_world (\<lambda>i. 10000000000000004) offline)))) = [] \<and>
   sent (snd (snd (KeyBundle_get
       (fst (snd (KeyBundle_get (a_bundle\<lparr>cache_time := 3\<rparr>) []
          (a_late_world (answers 200 a_jwks)))))
       [] (a_world (\<lambda>i. 10000000000000006) offline)))) = [request_of a_bundle]"
  using freshness_gating [of a_bundle "''https://idp.example/jwks''"
      "a_world (\<lambda>i. 1000) (answers 200 a_jwks)" "[]" "[]" "a_world (\<lambda>i. 1300) offline"]
    freshness_gating [of "a_bundle\<lparr>cache_time := 3\<rparr>" "''https://idp.example/jwks''"
      "a_late_world (answers 200 a_jwks)" "[]" "[]"
      "a_world (\<lambda>i. 10000000000000004) offline"]
  by (simp add: KeyBundle_get_def KeyBundle_keys_def uptodate_def is_not_new_list_def time_def
      update_def do_remote_def request_def request_of_def a_bundle_def a_world_def answers_def
      offline_def a_jwks_def an_hmac_key_def key_of_jwk_def K2C_def construct_def kwarg_def
      Key_init_def lower_def lower_char_def a_late_world_def rounds_up_def)


text \<open>
  C3 as stated fails: a read at the very time of expiry (clock 100, \<open>time_out\<close> 100)
  sends no request, and neither does a read of a bundle with no keys before its
  expiry.
\<close>

theorem no_fetch_at_expiry:
  "time_out a_bundle \<le> clock (a_world (\<lambda>i. 100) offline) 0 \<and>
   sent (snd (snd (KeyBundle_get a_bundle [] (a_world (\<lambda>i. 100) offline)))) = [] \<and>
   kb_keys (a_bundle\<lparr>kb_keys := []\<rparr>) = [] \<and>
   sent (snd (snd (KeyBundle_get (a_bundle\<lparr>kb_keys := []\<rparr>) [] (a_world (\<lambda>i. 50) offline)))) = []"
  by (simp add: KeyBundle_get_def uptodate_def is_not_new_list_def time_def a_bundle_def
      a_world_def)

section \<open>Looking an issuer up\<close>

lemma issuer_bundles_toggle:
  "issuer \<noteq> [] \<Longrightarrow>
     issuer_bundles s issuer =
       Inr (case issuer_keys s issuer of
              Some l \<Rightarrow> l
            | None \<Rightarrow> (case issuer_keys s (toggle_slash issuer) of Some l \<Rightarrow> l | None \<Rightarrow> []))"
  by (simp add: issuer_bundles_def toggle_slash_def split: option.splits)

lemma issuer_bundles_self:
  "issuer_bundles s [] = (case issuer_keys s [] of Some l \<Rightarrow> Inr l | None \<Rightarrow> Inl KeyError)"
  by (simp add: issuer_bundles_def)

lemma KeyJar_get_same_bundles:
  "issuer_bundles s i = issuer_bundles s j \<Longrightarrow>
     KeyJar_get use0 key_type i s = KeyJar_get use0 key_type j s"
  by (simp add: KeyJar_get_def)

lemma KeyJar_get_no_bundles:
  "issuer_bundles s i = Inr [] \<Longrightarrow> KeyJar_get use0 key_type i s = (Inr [], s)"
  by (simp add: KeyJar_get_def Let_def)

text \<open>
  C4, as amended. For every usage, every key type and every non-empty issuer
  identity, \<^verbatim>\<open>KeyJar.get\<close> returns the empty dictionary, raises nothing and leaves the
  jar as it was when the jar has no entry for the issuer and none for the issuer with
  its trailing slash toggled.
\<close>

theorem unknown_issuer:
  assumes "issuer \<noteq> []" and "issuer_keys s issuer = None"
    and "issuer_keys s (toggle_slash issuer) = None"
  shows "KeyJar_get use0 key_type issuer s = (Inr [], s)"
  using assms by (simp add: KeyJar_get_no_bundles issuer_bundles_toggle)

text \<open>The theorem at the empty jar and the issuer \<open>https://idp.example\<close>.\<close>

theorem unknown_issuer_witness:
  "''https://idp.example'' \<noteq> [] \<and>
   issuer_keys (a_jar [] []) ''https://idp.example'' = None \<and>
   issuer_keys (a_jar [] []) (toggle_slash ''https://idp.example'') = None \<and>
   KeyJar_get ''sig'' ''rsa'' ''https://idp.example'' (a_jar [] []) = (Inr [], a_jar [] [])"
  using unknown_issuer [of "''https://idp.example''" "a_jar [] []" "''sig''" "''rsa''"]
  by (simp add: a_jar_def)

text \<open>
  C4 as stated fails for the empty-string issuer: on a jar with no entry for it,
  \<^verbatim>\<open>get\<close> raises \<^verbatim>\<open>KeyError\<close>.
\<close>

theorem unknown_self_raises:
  "issuer_keys (a_jar [] []) [] = None \<and>
   fst (KeyJar_get ''sig'' [] [] (a_jar [] [])) = Inl KeyError"
  by (simp add: KeyJar_get_def issuer_bundles_def a_jar_def)

text \<open>
  C8, as amended. For every non-empty issuer identity, every usage and every key type,
  the bundle list \<^verbatim>\<open>KeyJar.get\<close> works on is the issuer's own entry when there is
  one, else the entry of the issuer with its trailing slash toggled, else the empty
  list; so when only the toggled identity has an entry, the lookup by the issuer is
  the lookup by the toggled identity, result and effects alike.
\<close>

theorem trailing_slash:
  assumes "issuer \<noteq> []"
  shows "issuer_bundles s issuer =
           Inr (case issuer_keys s issuer of
                  Some l \<Rightarrow> l
                | None \<Rightarrow> (case issuer_keys s (toggle_slash issuer) of Some l \<Rightarrow> l | None \<Rightarrow> [])) \<and>
         (issuer_keys s issuer = None \<and> issuer_keys s (toggle_slash issuer) \<noteq> None \<longrightarrow>
            KeyJar_get use0 key_type issuer s = KeyJar_get use0 key_type (toggle_slash issuer) s)"
proof (intro conjI impI)
  show "issuer_bundles s issuer =
           Inr (case issuer_keys s issuer of
                  Some l \<Rightarrow> l
                | None \<Rightarrow> (case issuer_keys s (toggle_slash issuer) of Some l \<Rightarrow> l | None \<Rightarrow> []))"
    using assms by (rule issuer_bundles_toggle)
next
  assume h: "issuer_keys s issuer = None \<and> issuer_keys s (toggle_slash issuer) \<noteq> None"
  then obtain l where l: "issuer_keys s (toggle_slash issuer) = Some l" by auto
  have "issuer_bundles s issuer = Inr l"
    using assms h l by (simp add: issuer_bundles_toggle)
  moreover have "issuer_bundles s (toggle_slash issuer) = Inr l"
  proof (cases "toggle_slash issuer = []")
    case True
    then show ?thesis using l by (simp add: issuer_bundles_self)
  next
    case False
    then show ?thesis using l by (simp add: issuer_bundles_toggle)
  qed
  ultimately show "KeyJar_get use0 key_type issuer s =
      KeyJar_get use0 key_type (toggle_slash issuer) s"
    by (simp add: KeyJar_get_same_bundles)
qed

text \<open>
  The theorem at a jar that holds one key under \<open>https://idp.example/\<close>, looked up as
  \<open>https://idp.example\<close>, and the other way round.
\<close>

theorem trailing_slash_witness:
  "''https://idp.example'' \<noteq> [] \<and> ''https://idp.example/'' \<noteq> [] \<and>
   toggle_slash ''https://idp.example'' = ''https://idp.example/'' \<and>
   toggle_slash ''https://idp.example/'' = ''https://idp.example'' \<and>
   issuer_bundles (a_jar [(''https://idp.example/'', [0])] [(0, a_local_bundle)])
     ''https://idp.example'' = Inr [0] \<and>
   issuer_bundles (a_jar [(''https://idp.example'', [0])] [(0, a_local_bundle)])
     ''https://idp.example/'' = Inr [0] \<and>
   fst (KeyJar_get ''ver'' [] ''https://idp.example''
          (a_jar [(''https://idp.example/'', [0])] [(0, a_local_bundle)])) =
     Inr [(''hmac'', [Str ''secret''])] \<and>
   fst (KeyJar_get ''ver'' [] ''https://idp.example/''
          (a_jar [(''https://idp.example'', [0])] [(0, a_local_bundle)])) =
     Inr [(''hmac'', [Str ''secret''])]"
  using trailing_slash [of "''https://idp.example''"
      "a_jar [(''https://idp.example/'', [0])] [(0, a_local_bundle)]" "''ver''" "[]"]
    trailing_slash [of "''https://idp.example/''"
      "a_jar [(''https://idp.example'', [0])] [(0, a_local_bundle)]" "''ver''" "[]"]
  by (simp add: KeyJar_get_def issuer_bundles_def toggle_slash_def endswith_def a_jar_def
      a_local_bundle_def blank_bundle_def an_hmac_key_def KeyBundle_keys_def uptodate_def
      is_not_new_list_def)

text \<open>
  C8 as stated fails for the empty-string issuer: with keys registered under \<open>/\<close>,
  the empty string with a slash appended, the lookup by the empty string does not try
  \<open>/\<close> but raises \<^verbatim>\<open>KeyError\<close>.
\<close>

theorem self_lookup_no_toggle:
  "toggle_slash [] = ''/'' \<and>
   issuer_keys (a_jar [(''/'', [0])] [(0, a_local_bundle)]) [] = None \<and>
   issuer_keys (a_jar [(''/'', [0])] [(0, a_local_bundle)]) ''/'' = Some [0] \<and>
   fst (KeyJar_get ''sig'' [] [] (a_jar [(''/'', [0])] [(0, a_local_bundle)])) = Inl KeyError"
  by (simp add: KeyJar_get_def issuer_bundles_def toggle_slash_def endswith_def a_jar_def)


section \<open>Registering a source\<close>

lemma do_local_der_loop_frame:
  "do_local_der_loop w ktype bkey us kb = (r, kb') \<Longrightarrow>
     \<exists>new. kb' = kb\<lparr>kb_keys := kb_keys kb @ new\<rparr>"
proof (induction us arbitrary: kb)
  case Nil
  then have "kb' = kb\<lparr>kb_keys := kb_keys kb @ []\<rparr>" by simp
  then show ?case by blast
next
  case (Cons u us)
  show ?case
  proof (cases "K2C ktype")
    case None
    with Cons.prems have "kb' = kb\<lparr>kb_keys := kb_keys kb @ []\<rparr>" by simp
    then show ?thesis by blast
  next
    case (Some c)
    let ?k1 = "set_base (default_key c) ((base (default_key c))\<lparr>key := bkey\<rparr>)"
    show ?thesis
    proof (cases "decomp w ?k1")
      case (Inl ex)
      with Cons.prems Some have "kb' = kb\<lparr>kb_keys := kb_keys kb @ []\<rparr>"
        by (simp add: Let_def)
      then show ?thesis by blast
    next
      case (Inr k2)
      let ?k3 = "set_base k2 ((base k2)\<lparr>use := u\<rparr>)"
      from Cons.prems Some Inr
      have "do_local_der_loop w ktype bkey us (kb\<lparr>kb_keys := kb_keys kb @ [?k3]\<rparr>) = (r, kb')"
        by (simp add: Let_def)
      from Cons.IH [OF this] obtain new where
        "kb' = kb\<lparr>kb_keys := kb_keys kb @ [?k3],
                  kb_keys := kb_keys (kb\<lparr>kb_keys := kb_keys kb @ [?k3]\<rparr>) @ new\<rparr>"
        by blast
      then have "kb' = kb\<lparr>kb_keys := kb_keys kb @ (?k3 # new)\<rparr>" by simp
      then show ?thesis by blast
    qed
  qed
qed

lemma KeyBundle_init_verify_ssl:
  assumes "KeyBundle_init w keys src ctime vssl ffmt ktype kusage = Inr kb"
  shows "verify_ssl kb = vssl"
proof -
  have dk: "\<And>ks kb0 r kb1. do_keys w ks kb0 = (r, kb1) \<Longrightarrow> verify_ssl kb1 = verify_ssl kb0"
    using do_keys_frame by fastforce
  have dj: "\<And>f kb0 r kb1. do_local_jwk w f kb0 = (r, kb1) \<Longrightarrow> verify_ssl kb1 = verify_ssl kb0"
    by (auto simp: do_local_jwk_def split: sum.splits dest: dk)
  have dd: "\<And>f kt ku kb0 r kb1. do_local_der w f kt ku kb0 = (r, kb1) \<Longrightarrow>
      verify_ssl kb1 = verify_ssl kb0"
    using do_local_der_loop_frame
    by (fastforce simp: do_local_der_def split: sum.splits if_splits)
  show ?thesis
    using assms
    by (auto simp: KeyBundle_init_def Let_def split: if_splits prod.splits sum.splits
        dest: dk dj dd)
qed

lemma startswith_Cons: "startswith s (c # p) \<Longrightarrow> \<exists>t. s = c # t"
  by (cases s) (auto simp: startswith_def)

lemma KeyBundle_init_http:
  assumes "startswith u ''http://'' \<or> startswith u ''https://''"
  shows "KeyBundle_init w [] u ctime vssl ''jwk'' ''rsa'' None =
     Inr \<lparr>kb_keys = [], remote = True, verify_ssl = vssl, cache_time = ctime, time_out = 0,
          etag = [], cache_control = None, source = Some u, fileformat = ''jwk'',
          keytype = ''rsa'', keyusage = None\<rparr>"
proof -
  have "\<not> startswith u ''file://''"
    using assms by (auto dest!: startswith_Cons)
  then show ?thesis
    using assms by (auto simp: KeyBundle_init_def lower_def lower_char_def)
qed

text \<open>
  C10. Whenever \<^verbatim>\<open>KeyJar.add\<close> returns a bundle, for any URL, the bundle verifies
  certificates exactly when the URL contains neither \<open>/localhost:\<close> nor
  \<open>/localhost/\<close>. For every \<open>http://\<close> or \<open>https://\<close> URL it does return one: a new
  remote bundle for that URL, with no keys yet, appended to the issuer's list.
\<close>

theorem add_verify_ssl:
  "(\<forall>a s'. KeyJar_add issuer u s = (Inr a, s') \<longrightarrow>
      verify_ssl (heap s' a) = (\<not> (str_in ''/localhost:'' u \<or> str_in ''/localhost/'' u))) \<and>
   (startswith u ''http://'' \<or> startswith u ''https://'' \<longrightarrow>
      (\<exists>s'. KeyJar_add issuer u s = (Inr (heap_next s), s') \<and>
         remote (heap s' (heap_next s)) \<and>
         source (heap s' (heap_next s)) = Some u \<and>
         kb_keys (heap s' (heap_next s)) = [] \<and>
         issuer_keys s' issuer =
           Some ((case issuer_keys s issuer of Some l \<Rightarrow> l | None \<Rightarrow> []) @ [heap_next s])))"
proof (intro conjI allI impI)
  fix a s'
  assume "KeyJar_add issuer u s = (Inr a, s')"
  then show "verify_ssl (heap s' a) = (\<not> (str_in ''/localhost:'' u \<or> str_in ''/localhost/'' u))"
    by (auto simp: KeyJar_add_def split: if_splits sum.splits dest: KeyBundle_init_verify_ssl)
next
  assume h: "startswith u ''http://'' \<or> startswith u ''https://''"
  show "\<exists>s'. KeyJar_add issuer u s = (Inr (heap_next s), s') \<and>
         remote (heap s' (heap_next s)) \<and>
         source (heap s' (heap_next s)) = Some u \<and>
         kb_keys (heap s' (heap_next s)) = [] \<and>
         issuer_keys s' issuer =
           Some ((case issuer_keys s issuer of Some l \<Rightarrow> l | None \<Rightarrow> []) @ [heap_next s])"
    by (simp add: KeyJar_add_def KeyBundle_init_http [OF h] split: option.splits)
qed

text \<open>The theorem at a localhost URL and at another URL, on the empty jar.\<close>

theorem add_verify_ssl_witness:
  "str_in ''/localhost:'' ''https://localhost:8092/jwks'' \<and>
   startswith ''https://localhost:8092/jwks'' ''https://'' \<and>
   fst (KeyJar_add ''me'' ''https://localhost:8092/jwks'' (a_jar [] [])) = Inr 0 \<and>
   \<not> verify_ssl (heap (snd (KeyJar_add ''me'' ''https://localhost:8092/jwks'' (a_jar [] []))) 0) \<and>
   remote (heap (snd (KeyJar_add ''me'' ''https://localhost:8092/jwks'' (a_jar [] []))) 0) \<and>
   \<not> str_in ''/localhost:'' ''https://idp.example/jwks'' \<and>
   \<not> str_in ''/localhost/'' ''https://idp.example/jwks'' \<and>
   verify_ssl (heap (snd (KeyJar_add ''me'' ''https://idp.example/jwks'' (a_jar [] []))) 0) \<and>
   remote (heap (snd (KeyJar_add ''me'' ''https://idp.example/jwks'' (a_jar [] []))) 0) \<and>
   issuer_keys (snd (KeyJar_add ''me'' ''https://idp.example/jwks'' (a_jar [] []))) ''me'' =
     Some [0]"
  using add_verify_ssl [of "''me''" "''https://localhost:8092/jwks''" "a_jar [] []"]
    add_verify_ssl [of "''me''" "''https://idp.example/jwks''" "a_jar [] []"]
  by (simp add: KeyJar_add_def KeyBundle_init_def startswith_def a_jar_def lower_def
      lower_char_def)

section \<open>Registering a symmetric key\<close>

text \<open>
  C5 fails on the code. On a jar that has an (empty) entry for the empty-string
  issuer, \<^verbatim>\<open>add_hmac\<close> for the issuer \<open>https://idp.example\<close>, the secret \<open>secret\<close>
  and the usage \<open>sig\<close> creates an empty list for that issuer and appends the bundle
  with the key to the list of the empty-string issuer: the issuer's list stays empty
  and a lookup of the key under the issuer finds nothing. On a jar with no entry for
  the empty-string issuer the same call raises \<^verbatim>\<open>KeyError\<close>.
\<close>

theorem add_hmac_goes_to_self:
  "fst (KeyJar_add_hmac ''https://idp.example'' ''secret'' [''sig''] (a_jar [([], [])] [])) =
     Inr () \<and>
   issuer_keys (snd (KeyJar_add_hmac ''https://idp.example'' ''secret'' [''sig'']
       (a_jar [([], [])] []))) ''https://idp.example'' = Some [] \<and>
   issuer_keys (snd (KeyJar_add_hmac ''https://idp.example'' ''secret'' [''sig'']
       (a_jar [([], [])] []))) [] = Some [0] \<and>
   kb_keys (heap (snd (KeyJar_add_hmac ''https://idp.example'' ''secret'' [''sig'']
       (a_jar [([], [])] []))) 0) = [an_hmac_key] \<and>
   fst (KeyJar_get ''sig'' ''hmac'' ''https://idp.example''
       (snd (KeyJar_add_hmac ''https://idp.example'' ''secret'' [''sig'']
          (a_jar [([], [])] [])))) = Inr [] \<and>
   fst (KeyJar_add_hmac ''https://idp.example'' ''secret'' [''sig''] (a_jar [] [])) =
     Inl KeyError"
  by (simp add: KeyJar_add_hmac_def KeyBundle_init_def a_jar_def key_of_jwk_def K2C_def
      construct_def kwarg_def Key_init_def lower_def lower_char_def an_hmac_key_def
      KeyJar_get_def issuer_bundles_def endswith_def)

section \<open>Removing keys\<close>

lemma remove_all_keys:
  assumes "list_all (\<lambda>k. kty (base k) = lower key_type \<and> (truthy val \<longrightarrow> key (base k) = val))
             (kb_keys kb)"
  shows "KeyBundle_remove kb key_type val = kb\<lparr>kb_keys := []\<rparr>"
proof -
  have "filter (\<lambda>k. \<not> (kty (base k) = lower key_type \<and> key (base k) = val)) (kb_keys kb) = []"
    if "truthy val"
    using assms that by (auto simp: list_all_iff filter_empty_conv)
  moreover have "filter (\<lambda>k. \<not> kty (base k) = lower key_type) (kb_keys kb) = []"
    using assms by (auto simp: list_all_iff filter_empty_conv)
  ultimately show ?thesis
    by (simp add: KeyBundle_remove_def)
qed

lemma remove_key_single:
  assumes l: "issuer_keys s issuer = Some [a]"
    and ks: "list_all (\<lambda>k. kty (base k) = lower key_type \<and> (truthy val \<longrightarrow> key (base k) = val))
             (kb_keys (heap s a))"
  shows "KeyJar_remove_key issuer key_type val s =
     s\<lparr>heap := (heap s)(a := (heap s a)\<lparr>kb_keys := []\<rparr>),
       issuer_keys := (issuer_keys s)(issuer \<mapsto> [])\<rparr>"
proof -
  let ?s' = "s\<lparr>heap := (heap s)(a := (heap s a)\<lparr>kb_keys := []\<rparr>),
       issuer_keys := (issuer_keys s)(issuer \<mapsto> [])\<rparr>"
  have stop: "remove_key_loop (Suc 0) issuer key_type val ?s' = ?s'"
    by (subst remove_key_loop.simps) simp
  have "remove_key_loop 0 issuer key_type val s =
      remove_key_loop (Suc 0) issuer key_type val ?s'"
    by (subst remove_key_loop.simps) (simp add: l remove_all_keys [OF ks])
  with stop show ?thesis
    by (simp add: KeyJar_remove_key_def l)
qed

text \<open>
  C6, as amended. Let the issuer's list hold one bundle, all of whose keys are of the
  kind given to \<^verbatim>\<open>remove_key\<close> (compared in lower case) and, when the key material
  given is true, have that material. Then \<^verbatim>\<open>remove_key\<close> empties the bundle and
  prunes it from the issuer's list, and changes nothing else: the issuer's entry
  stays in the jar, with the empty list, so the issuer is still a member of the jar.
\<close>

theorem remove_key_prunes:
  assumes "issuer_keys s issuer = Some [a]"
    and "list_all (\<lambda>k. kty (base k) = lower key_type \<and> (truthy val \<longrightarrow> key (base k) = val))
           (kb_keys (heap s a))"
  shows "KeyJar_remove_key issuer key_type val s =
           s\<lparr>heap := (heap s)(a := (heap s a)\<lparr>kb_keys := []\<rparr>),
             issuer_keys := (issuer_keys s)(issuer \<mapsto> [])\<rparr> \<and>
         issuer_keys (KeyJar_remove_key issuer key_type val s) issuer = Some [] \<and>
         contains (KeyJar_remove_key issuer key_type val s) issuer"
  using remove_key_single [OF assms] by (simp add: contains_def)

text \<open>
  The theorem at a jar whose issuer \<open>https://idp.example\<close> has one bundle with one
  HMAC key, removed by kind \<open>HMAC\<close> and its secret.
\<close>

theorem remove_key_prunes_witness:
  "issuer_keys (a_jar [(''https://idp.example'', [0])] [(0, a_local_bundle)])
     ''https://idp.example'' = Some [0] \<and>
   kb_keys (heap (a_jar [(''https://idp.example'', [0])] [(0, a_local_bundle)]) 0) =
     [an_hmac_key] \<and>
   kty (base an_hmac_key) = lower ''HMAC'' \<and> key (base an_hmac_key) = Str ''secret'' \<and>
   issuer_keys (KeyJar_remove_key ''https://idp.example'' ''HMAC'' (Str ''secret'')
       (a_jar [(''https://idp.example'', [0])] [(0, a_local_bundle)]))
     ''https://idp.example'' = Some [] \<and>
   kb_keys (heap (KeyJar_remove_key ''https://idp.example'' ''HMAC'' (Str ''secret'')
       (a_jar [(''https://idp.example'', [0])] [(0, a_local_bundle)])) 0) = []"
  using remove_key_prunes [of "a_jar [(''https://idp.example'', [0])] [(0, a_local_bundle)]"
      "''https://idp.example''" 0 "''HMAC''" "Str ''secret''"]
  by (simp add: a_jar_def a_local_bundle_def blank_bundle_def an_hmac_key_def lower_def
      lower_char_def)

text \<open>
  C6 as stated fails: after the sole key of the issuer's only bundle is removed, the
  issuer is still in the jar, with an empty bundle list.
\<close>

theorem issuer_stays_after_removal:
  "kb_keys (heap (a_jar [(''https://idp.example'', [0])] [(0, a_local_bundle)]) 0) =
     [an_hmac_key] \<and>
   contains (KeyJar_remove_key ''https://idp.example'' ''hmac'' (Str ''secret'')
       (a_jar [(''https://idp.example'', [0])] [(0, a_local_bundle)]))
     ''https://idp.example'' \<and>
   issuer_keys (KeyJar_remove_key ''https://idp.example'' ''hmac'' (Str ''secret'')
       (a_jar [(''https://idp.example'', [0])] [(0, a_local_bundle)]))
     ''https://idp.example'' = Some []"
proof -
  let ?s = "a_jar [(''https://idp.example'', [0])] [(0, a_local_bundle)]"
  have l: "issuer_keys ?s ''https://idp.example'' = Some [0]"
    by (simp add: a_jar_def)
  have ks: "list_all (\<lambda>k. kty (base k) = lower ''hmac'' \<and>
        (truthy (Str ''secret'') \<longrightarrow> key (base k) = Str ''secret'')) (kb_keys (heap ?s 0))"
    by (simp add: a_jar_def a_local_bundle_def blank_bundle_def an_hmac_key_def lower_def
        lower_char_def)
  show ?thesis
    using remove_key_single [OF l ks]
    by (simp add: contains_def a_jar_def a_local_bundle_def blank_bundle_def)
qed

section \<open>Keys of a counterpart and of the owner\<close>

lemma uptodate_settled:
  assumes "remote kb \<longrightarrow> (\<forall>i. clock w i \<le> time_out kb)"
  shows "\<exists>n. uptodate kb w = (Inr (), kb, w\<lparr>ticks := n\<rparr>)"
proof (cases "remote kb")
  case True
  with assms have "\<not> time_out kb < clock w (ticks w)"
    by (simp add: not_less)
  with True have "uptodate kb w = (Inr (), kb, w\<lparr>ticks := Suc (ticks w)\<rparr>)"
    by (simp add: uptodate_def is_not_new_list_def time_def)
  then show ?thesis by blast
next
  case False
  then have "uptodate kb w = (Inr (), kb, w\<lparr>ticks := ticks w\<rparr>)"
    by (simp add: uptodate_def is_not_new_list_def)
  then show ?thesis by blast
qed

lemma KeyBundle_keys_settled:
  assumes "remote kb \<longrightarrow> (\<forall>i. clock w i \<le> time_out kb)"
  shows "\<exists>n. KeyBundle_keys kb w = (Inr (kb_keys kb), kb, w\<lparr>ticks := n\<rparr>)"
  using uptodate_settled [OF assms] by (auto simp: KeyBundle_keys_def)

lemma collect_append: "collect u (xs @ ys) res = collect u ys (collect u xs res)"
  by (induction xs arbitrary: res) simp_all

lemma get_untyped_loop_settled:
  assumes "\<forall>a \<in> set as. remote (heap s a) \<longrightarrow> (\<forall>i. clock (env s) i \<le> time_out (heap s a))"
  shows "\<exists>n. get_untyped_loop u as res s =
     (Inr (collect u (concat (map (\<lambda>a. kb_keys (heap s a)) as)) res),
      s\<lparr>env := (env s)\<lparr>ticks := n\<rparr>\<rparr>)"
  using assms
proof (induction as arbitrary: res s)
  case Nil
  have "s = s\<lparr>env := (env s)\<lparr>ticks := ticks (env s)\<rparr>\<rparr>" by simp
  then have "get_untyped_loop u [] res s =
      (Inr (collect u (concat (map (\<lambda>a. kb_keys (heap s a)) [])) res),
       s\<lparr>env := (env s)\<lparr>ticks := ticks (env s)\<rparr>\<rparr>)"
    by simp
  then show ?case by blast
next
  case (Cons a as)
  from Cons.prems have "remote (heap s a) \<longrightarrow> (\<forall>i. clock (env s) i \<le> time_out (heap s a))"
    by simp
  from KeyBundle_keys_settled [OF this] obtain n where
    k: "KeyBundle_keys (heap s a) (env s) =
          (Inr (kb_keys (heap s a)), heap s a, (env s)\<lparr>ticks := n\<rparr>)"
    by blast
  let ?s1 = "s\<lparr>env := (env s)\<lparr>ticks := n\<rparr>\<rparr>"
  have s1: "s\<lparr>heap := (heap s)(a := heap s a), env := (env s)\<lparr>ticks := n\<rparr>\<rparr> = ?s1"
    by simp
  have "\<forall>b \<in> set as. remote (heap ?s1 b) \<longrightarrow> (\<forall>i. clock (env ?s1) i \<le> time_out (heap ?s1 b))"
    using Cons.prems by simp
  from Cons.IH [OF this, of "collect u (kb_keys (heap s a)) res"] obtain m where
    "get_untyped_loop u as (collect u (kb_keys (heap s a)) res) ?s1 =
       (Inr (collect u (concat (map (\<lambda>b. kb_keys (heap ?s1 b)) as))
               (collect u (kb_keys (heap s a)) res)),
        ?s1\<lparr>env := (env ?s1)\<lparr>ticks := m\<rparr>\<rparr>)"
    by blast
  then have "get_untyped_loop u (a # as) res s =
      (Inr (collect u (concat (map (\<lambda>b. kb_keys (heap s b)) (a # as))) res),
       s\<lparr>env := (env s)\<lparr>ticks := m\<rparr>\<rparr>)"
    by (simp add: k s1 collect_append)
  then show ?case by blast
qed

lemma map_of_dict_append:
  "map_of (dict_append res t v) t' =
     (if t' = t then Some ((case map_of res t of Some l \<Rightarrow> l | None \<Rightarrow> []) @ [v])
      else map_of res t')"
  by (induction res t v rule: dict_append.induct) auto

lemma map_of_dict_extend:
  "map_of (dict_extend res t vs) t' =
     (if t' = t then Some ((case map_of res t of Some l \<Rightarrow> l | None \<Rightarrow> []) @ vs)
      else map_of res t')"
  by (induction res t vs rule: dict_extend.induct) auto

lemma fst_dict_append:
  "set (map fst (dict_append res t v)) = insert t (set (map fst res))"
  by (induction res t v rule: dict_append.induct) auto

lemma distinct_dict_append:
  "distinct (map fst res) \<Longrightarrow> distinct (map fst (dict_append res t v))"
proof (induction res t v rule: dict_append.induct)
  case (1 t v)
  then show ?case by simp
next
  case (2 a l res t v)
  then show ?case
    using fst_dict_append [of res t v] by auto
qed

lemma distinct_collect:
  "distinct (map fst res) \<Longrightarrow> distinct (map fst (collect u ks res))"
  by (induction ks arbitrary: res) (simp_all add: distinct_dict_append)

text \<open>The material of the keys of a usage and a kind, in order.\<close>

lemma map_of_collect:
  "map_of (collect u ks res) t =
     (if filter (\<lambda>k. u = use (base k) \<and> kty (base k) = t) ks = [] then map_of res t
      else Some ((case map_of res t of Some l \<Rightarrow> l | None \<Rightarrow> []) @
             map (\<lambda>k. key (base k)) (filter (\<lambda>k. u = use (base k) \<and> kty (base k) = t) ks)))"
  by (induction ks arbitrary: res) (auto simp: map_of_dict_append)

lemma map_of_x_keys_loop:
  "distinct (map fst own) \<Longrightarrow>
     map_of (x_keys_loop own keys) t =
       (case map_of own t of
          None \<Rightarrow> map_of keys t
        | Some val \<Rightarrow>
            (if val = [] then map_of keys t
             else Some ((case map_of keys t of Some l \<Rightarrow> l | None \<Rightarrow> []) @ val)))"
proof (induction own arbitrary: keys)
  case Nil
  then show ?case by simp
next
  case (Cons p own)
  obtain t0 val0 where p: "p = (t0, val0)" by (cases p)
  from Cons.prems p have d: "distinct (map fst own)" and n: "map_of own t0 = None"
    by (auto simp: map_of_eq_None_iff)
  show ?case
    using n by (auto simp: p Cons.IH [OF d] map_of_dict_extend split: option.splits)
qed


lemma KeyJar_get_settled:
  assumes b: "issuer_bundles s issuer = Inr bs"
    and st: "\<forall>a \<in> set bs. remote (heap s a) \<longrightarrow> (\<forall>i. clock (env s) i \<le> time_out (heap s a))"
  shows "\<exists>n. KeyJar_get use0 [] issuer s =
     (Inr (collect (if use0 = ''dec'' then ''enc'' else if use0 = ''ver'' then ''sig'' else use0)
             (concat (map (\<lambda>a. kb_keys (heap s a)) bs)) []),
      s\<lparr>env := (env s)\<lparr>ticks := n\<rparr>\<rparr>)"
proof (cases "bs = []")
  case True
  have "s = s\<lparr>env := (env s)\<lparr>ticks := ticks (env s)\<rparr>\<rparr>" by simp
  then have "KeyJar_get use0 [] issuer s =
     (Inr (collect (if use0 = ''dec'' then ''enc'' else if use0 = ''ver'' then ''sig'' else use0)
             (concat (map (\<lambda>a. kb_keys (heap s a)) bs)) []),
      s\<lparr>env := (env s)\<lparr>ticks := ticks (env s)\<rparr>\<rparr>)"
    using True b by (simp add: KeyJar_get_def Let_def)
  then show ?thesis by blast
next
  case False
  then show ?thesis
    using get_untyped_loop_settled [OF st] b by (simp add: KeyJar_get_def Let_def)
qed

lemma x_keys_settled:
  assumes bp: "issuer_bundles s part = Inr bp"
    and bs: "issuer_keys s [] = Some bs"
    and st: "\<forall>a \<in> set (bp @ bs).
               remote (heap s a) \<longrightarrow> (\<forall>i. clock (env s) i \<le> time_out (heap s a))"
  shows "\<exists>d n. x_keys ''verify'' part s = (Inr d, s\<lparr>env := (env s)\<lparr>ticks := n\<rparr>\<rparr>) \<and>
     (\<forall>t. map_of d t =
        (if filter (\<lambda>k. ''sig'' = use (base k) \<and> kty (base k) = t)
              (concat (map (\<lambda>a. kb_keys (heap s a)) (bp @ bs))) = []
         then None
         else Some (map (\<lambda>k. key (base k))
                 (filter (\<lambda>k. ''sig'' = use (base k) \<and> kty (base k) = t)
                    (concat (map (\<lambda>a. kb_keys (heap s a)) (bp @ bs)))))))"
proof -
  let ?KP = "concat (map (\<lambda>a. kb_keys (heap s a)) bp)"
  let ?KS = "concat (map (\<lambda>a. kb_keys (heap s a)) bs)"
  have stp: "\<forall>a \<in> set bp. remote (heap s a) \<longrightarrow> (\<forall>i. clock (env s) i \<le> time_out (heap s a))"
    using st by simp
  from KeyJar_get_settled [OF bp stp, of "''ver''"] obtain n where
    g1: "KeyJar_get ''ver'' [] part s =
           (Inr (collect ''sig'' ?KP []), s\<lparr>env := (env s)\<lparr>ticks := n\<rparr>\<rparr>)"
    by auto
  let ?s1 = "s\<lparr>env := (env s)\<lparr>ticks := n\<rparr>\<rparr>"
  have b1: "issuer_bundles ?s1 [] = Inr bs"
    using bs by (simp add: issuer_bundles_def)
  have st1: "\<forall>a \<in> set bs.
      remote (heap ?s1 a) \<longrightarrow> (\<forall>i. clock (env ?s1) i \<le> time_out (heap ?s1 a))"
    using st by simp
  from KeyJar_get_settled [OF b1 st1, of "''ver''"] obtain m where
    g2: "KeyJar_get ''ver'' [] [] ?s1 =
           (Inr (collect ''sig'' ?KS []), s\<lparr>env := (env s)\<lparr>ticks := m\<rparr>\<rparr>)"
    by auto
  let ?d = "x_keys_loop (collect ''sig'' ?KS []) (collect ''sig'' ?KP [])"
  have x: "x_keys ''verify'' part s = (Inr ?d, s\<lparr>env := (env s)\<lparr>ticks := m\<rparr>\<rparr>)"
    by (simp add: x_keys_def getter_use_def g1 g2)
  have d: "distinct (map fst (collect ''sig'' ?KS []))"
    by (rule distinct_collect) simp
  have "map_of ?d t =
        (if filter (\<lambda>k. ''sig'' = use (base k) \<and> kty (base k) = t)
              (concat (map (\<lambda>a. kb_keys (heap s a)) (bp @ bs))) = []
         then None
         else Some (map (\<lambda>k. key (base k))
                 (filter (\<lambda>k. ''sig'' = use (base k) \<and> kty (base k) = t)
                    (concat (map (\<lambda>a. kb_keys (heap s a)) (bp @ bs))))))" for t
    by (simp add: map_of_x_keys_loop [OF d] map_of_collect)
  with x show ?thesis by blast
qed

lemma verify_keys_settled:
  assumes "part \<noteq> []" and "issuer_keys s part = Some bp" and "issuer_keys s [] = Some bs"
    and "\<forall>a \<in> set (bp @ bs).
           remote (heap s a) \<longrightarrow> (\<forall>i. clock (env s) i \<le> time_out (heap s a))"
    and "concat (map (\<lambda>a. kb_keys (heap s a)) bp) = [A, B]"
    and "concat (map (\<lambda>a. kb_keys (heap s a)) bs) = [C]"
    and "use (base A) = ''sig''" and "use (base B) = ''sig''" and "use (base C) = ''sig''"
  shows "\<exists>d n. verify_keys part s = (Inr d, s\<lparr>env := (env s)\<lparr>ticks := n\<rparr>\<rparr>) \<and>
     (\<forall>t. map_of d t =
        (if filter (\<lambda>k. kty (base k) = t) [A, B, C] = [] then None
         else Some (map (\<lambda>k. key (base k)) (filter (\<lambda>k. kty (base k) = t) [A, B, C]))))"
proof -
  have bp: "issuer_bundles s part = Inr bp"
    using assms(1,2) by (simp add: issuer_bundles_def)
  from x_keys_settled [OF bp assms(3,4)] obtain d n where
    x: "x_keys ''verify'' part s = (Inr d, s\<lparr>env := (env s)\<lparr>ticks := n\<rparr>\<rparr>)"
    and m: "\<And>t. map_of d t =
        (if filter (\<lambda>k. ''sig'' = use (base k) \<and> kty (base k) = t)
              (concat (map (\<lambda>a. kb_keys (heap s a)) (bp @ bs))) = []
         then None
         else Some (map (\<lambda>k. key (base k))
                 (filter (\<lambda>k. ''sig'' = use (base k) \<and> kty (base k) = t)
                    (concat (map (\<lambda>a. kb_keys (heap s a)) (bp @ bs))))))"
    by blast
  have "map_of d t =
        (if filter (\<lambda>k. kty (base k) = t) [A, B, C] = [] then None
         else Some (map (\<lambda>k. key (base k)) (filter (\<lambda>k. kty (base k) = t) [A, B, C])))" for t
    using assms(5-9) by (simp add: m)
  with x show ?thesis
    by (auto simp: verify_keys_def)
qed

lemma dict_get_x_keys_loop:
  "distinct (map fst own) \<Longrightarrow>
     dict_get (x_keys_loop own keys) t = dict_get keys t @ dict_get own t"
  by (simp add: dict_get_def map_of_x_keys_loop split: option.splits)

lemma get_untyped_loop_distinct:
  "get_untyped_loop u as res s = (Inr d, s') \<Longrightarrow> distinct (map fst res) \<Longrightarrow>
     distinct (map fst d)"
proof (induction as arbitrary: res s)
  case Nil
  then show ?case by simp
next
  case (Cons a as)
  obtain r kb1 w1 where k: "KeyBundle_keys (heap s a) (env s) = (r, kb1, w1)"
    by (cases "KeyBundle_keys (heap s a) (env s)") auto
  show ?case
  proof (cases r)
    case (Inl ex)
    with Cons.prems(1) k show ?thesis by simp
  next
    case (Inr ks)
    with Cons.prems(1) k have
      "get_untyped_loop u as (collect u ks res)
         (s\<lparr>heap := (heap s)(a := kb1), env := w1\<rparr>) = (Inr d, s')"
      by simp
    from Cons.IH [OF this] Cons.prems(2) show ?thesis
      by (simp add: distinct_collect)
  qed
qed

lemma KeyJar_get_distinct:
  assumes "KeyJar_get use0 [] i s = (Inr d, s')"
  shows "distinct (map fst d)"
proof (cases "issuer_bundles s i")
  case (Inl ex)
  with assms show ?thesis by (simp add: KeyJar_get_def)
next
  case (Inr bundles)
  show ?thesis
  proof (cases "bundles = []")
    case True
    with assms Inr show ?thesis by (auto simp: KeyJar_get_def Let_def)
  next
    case False
    with assms Inr have "get_untyped_loop
        (if use0 = ''dec'' then ''enc'' else if use0 = ''ver'' then ''sig'' else use0)
        bundles [] s = (Inr d, s')"
      by (simp add: KeyJar_get_def Let_def)
    from get_untyped_loop_distinct [OF this] show ?thesis by simp
  qed
qed

lemma verify_keys_merge:
  assumes "KeyJar_get ''ver'' [] part s = (Inr keys, s1)"
    and "KeyJar_get ''ver'' [] [] s1 = (Inr own, s2)"
  shows "verify_keys part s = (Inr (x_keys_loop own keys), s2)"
    and "dict_get (x_keys_loop own keys) t = dict_get keys t @ dict_get own t"
proof -
  show "verify_keys part s = (Inr (x_keys_loop own keys), s2)"
    using assms by (simp add: verify_keys_def x_keys_def getter_use_def)
  show "dict_get (x_keys_loop own keys) t = dict_get keys t @ dict_get own t"
    using KeyJar_get_distinct [OF assms(2)] by (rule dict_get_x_keys_loop)
qed


text \<open>
  C7, as amended. \<^verbatim>\<open>verify_keys\<close> of a counterpart looks up the counterpart's keys
  with \<^verbatim>\<open>get("ver", "", counterpart)\<close> and then the owner's with
  \<^verbatim>\<open>get("ver", "", "")\<close>; each lookup may refresh bundles that are due. An exception
  of either lookup leaves \<^verbatim>\<open>verify_keys\<close>. When both return, the result holds under
  every kind the list the first lookup returned under that kind followed by the list
  the second returned: counterpart first, owner after, nothing dropped. In particular,
  let the bundles of the counterpart hold, in registration order, the keys \<open>A\<close> and
  \<open>B\<close>, and the bundles of the empty-string issuer the key \<open>C\<close>, all three with use
  \<open>sig\<close>, and let no bundle be due for a refresh (each is local, or remote and not
  expired at any clock reading). Then \<^verbatim>\<open>verify_keys\<close> raises nothing, changes
  nothing but the count of clock readings, and returns under every kind the material
  of those of \<open>A\<close>, \<open>B\<close>, \<open>C\<close> that are of the kind, in this order (no entry when
  there is none), also when \<open>A\<close> and \<open>C\<close> are equal.
\<close>

theorem verify_keys_order:
  "(\<forall>ex s1. KeyJar_get ''ver'' [] part s = (Inl ex, s1) \<longrightarrow>
      verify_keys part s = (Inl ex, s1)) \<and>
   (\<forall>keys s1 ex s2.
      KeyJar_get ''ver'' [] part s = (Inr keys, s1) \<and>
      KeyJar_get ''ver'' [] [] s1 = (Inl ex, s2) \<longrightarrow>
      verify_keys part s = (Inl ex, s2)) \<and>
   (\<forall>keys s1 own s2.
      KeyJar_get ''ver'' [] part s = (Inr keys, s1) \<and>
      KeyJar_get ''ver'' [] [] s1 = (Inr own, s2) \<longrightarrow>
      (\<exists>d. verify_keys part s = (Inr d, s2) \<and>
           (\<forall>t. dict_get d t = dict_get keys t @ dict_get own t))) \<and>
   (part \<noteq> [] \<and> issuer_keys s part = Some bp \<and> issuer_keys s [] = Some bs \<and>
    (\<forall>a \<in> set (bp @ bs).
       remote (heap s a) \<longrightarrow> (\<forall>i. clock (env s) i \<le> time_out (heap s a))) \<and>
    concat (map (\<lambda>a. kb_keys (heap s a)) bp) = [A, B] \<and>
    concat (map (\<lambda>a. kb_keys (heap s a)) bs) = [C] \<and>
    use (base A) = ''sig'' \<and> use (base B) = ''sig'' \<and> use (base C) = ''sig'' \<longrightarrow>
    (\<exists>d n. verify_keys part s = (Inr d, s\<lparr>env := (env s)\<lparr>ticks := n\<rparr>\<rparr>) \<and>
       (\<forall>t. map_of d t =
          (if filter (\<lambda>k. kty (base k) = t) [A, B, C] = [] then None
           else Some (map (\<lambda>k. key (base k)) (filter (\<lambda>k. kty (base k) = t) [A, B, C]))))))"
proof (intro conjI allI impI)
  fix ex s1
  assume "KeyJar_get ''ver'' [] part s = (Inl ex, s1)"
  then show "verify_keys part s = (Inl ex, s1)"
    by (simp add: verify_keys_def x_keys_def getter_use_def)
next
  fix keys s1 ex s2
  assume "KeyJar_get ''ver'' [] part s = (Inr keys, s1) \<and>
      KeyJar_get ''ver'' [] [] s1 = (Inl ex, s2)"
  then show "verify_keys part s = (Inl ex, s2)"
    by (simp add: verify_keys_def x_keys_def getter_use_def)
next
  fix keys s1 own s2
  assume h: "KeyJar_get ''ver'' [] part s = (Inr keys, s1) \<and>
      KeyJar_get ''ver'' [] [] s1 = (Inr own, s2)"
  then have g1: "KeyJar_get ''ver'' [] part s = (Inr keys, s1)"
    and g2: "KeyJar_get ''ver'' [] [] s1 = (Inr own, s2)"
    by simp_all
  from verify_keys_merge [OF g1 g2]
  show "\<exists>d. verify_keys part s = (Inr d, s2) \<and>
           (\<forall>t. dict_get d t = dict_get keys t @ dict_get own t)"
    by blast
next
  assume h: "part \<noteq> [] \<and> issuer_keys s part = Some bp \<and> issuer_keys s [] = Some bs \<and>
    (\<forall>a \<in> set (bp @ bs).
       remote (heap s a) \<longrightarrow> (\<forall>i. clock (env s) i \<le> time_out (heap s a))) \<and>
    concat (map (\<lambda>a. kb_keys (heap s a)) bp) = [A, B] \<and>
    concat (map (\<lambda>a. kb_keys (heap s a)) bs) = [C] \<and>
    use (base A) = ''sig'' \<and> use (base B) = ''sig'' \<and> use (base C) = ''sig''"
  show "\<exists>d n. verify_keys part s = (Inr d, s\<lparr>env := (env s)\<lparr>ticks := n\<rparr>\<rparr>) \<and>
       (\<forall>t. map_of d t =
          (if filter (\<lambda>k. kty (base k) = t) [A, B, C] = [] then None
           else Some (map (\<lambda>k. key (base k)) (filter (\<lambda>k. kty (base k) = t) [A, B, C]))))"
  proof (rule verify_keys_settled)
    show "part \<noteq> []" using h by blast
    show "issuer_keys s part = Some bp" using h by blast
    show "issuer_keys s [] = Some bs" using h by blast
    show "\<forall>a \<in> set (bp @ bs).
       remote (heap s a) \<longrightarrow> (\<forall>i. clock (env s) i \<le> time_out (heap s a))"
      using h by blast
    show "concat (map (\<lambda>a. kb_keys (heap s a)) bp) = [A, B]" using h by blast
    show "concat (map (\<lambda>a. kb_keys (heap s a)) bs) = [C]" using h by blast
    show "use (base A) = ''sig''" using h by blast
    show "use (base B) = ''sig''" using h by blast
    show "use (base C) = ''sig''" using h by blast
  qed
qed

text \<open>
  The theorem at \<open>two_party_jar\<close>, where the owner's key equals the counterpart's
  first: the material of that key comes first and last. And at \<open>a_stale_jar\<close> read at
  time 1000 with a server that answers 200 with one HMAC key: the first lookup
  returns the refreshed key, the second the owner's, and \<^verbatim>\<open>verify_keys\<close> both.
\<close>

theorem verify_keys_order_witness:
  "issuer_keys two_party_jar ''https://idp.example'' = Some [0] \<and>
   issuer_keys two_party_jar [] = Some [1] \<and>
   \<not> remote (heap two_party_jar 0) \<and> \<not> remote (heap two_party_jar 1) \<and>
   kb_keys (heap two_party_jar 0) = [an_rsa_key, another_rsa_key] \<and>
   kb_keys (heap two_party_jar 1) = [an_rsa_key] \<and>
   use (base an_rsa_key) = ''sig'' \<and> use (base another_rsa_key) = ''sig'' \<and>
   fst (verify_keys ''https://idp.example'' two_party_jar) =
     Inr [(''rsa'', [RSA_obj 3, RSA_obj 4, RSA_obj 3])] \<and>
   fst (KeyJar_get ''ver'' [] ''https://idp.example''
          (a_stale_jar (a_world (\<lambda>i. 1000) (answers 200 a_jwks)))) =
     Inr [(''hmac'', [Str ''secret''])] \<and>
   fst (KeyJar_get ''ver'' [] []
          (snd (KeyJar_get ''ver'' [] ''https://idp.example''
             (a_stale_jar (a_world (\<lambda>i. 1000) (answers 200 a_jwks)))))) =
     Inr [(''rsa'', [RSA_obj 3])] \<and>
   fst (verify_keys ''https://idp.example''
          (a_stale_jar (a_world (\<lambda>i. 1000) (answers 200 a_jwks)))) =
     Inr [(''hmac'', [Str ''secret'']), (''rsa'', [RSA_obj 3])]"
  using verify_keys_order [of "''https://idp.example''" two_party_jar "[0]" "[1]"
      an_rsa_key another_rsa_key an_rsa_key]
    verify_keys_order [of "''https://idp.example''"
      "a_stale_jar (a_world (\<lambda>i. 1000) (answers 200 a_jwks))"]
  by (simp add: verify_keys_def x_keys_def getter_use_def KeyJar_get_def issuer_bundles_def
      KeyBundle_keys_def uptodate_def is_not_new_list_def two_party_jar_def a_jar_def
      blank_bundle_def an_rsa_key_def another_rsa_key_def Let_def a_stale_jar_def
      a_bundle_def a_world_def answers_def a_jwks_def time_def update_def do_remote_def
      request_def request_of_def key_of_jwk_def K2C_def construct_def kwarg_def Key_init_def
      lower_def lower_char_def)

text \<open>
  C7 as stated fails when the counterpart's bundle is due for a refresh: in
  \<open>a_stale_jar\<close> the counterpart holds two signing keys and the owner one, and
  \<^verbatim>\<open>verify_keys\<close> read at time 1000 raises the exception of the HTTP client when the
  server cannot be reached, and returns the owner's key alone when the server
  answers 500.
\<close>

theorem verify_keys_loses_stale_keys:
  "issuer_keys (a_stale_jar (a_world (\<lambda>i. 1000) offline)) ''https://idp.example'' =
     Some [0] \<and>
   issuer_keys (a_stale_jar (a_world (\<lambda>i. 1000) offline)) [] = Some [1] \<and>
   kb_keys (heap (a_stale_jar (a_world (\<lambda>i. 1000) offline)) 0) =
     [an_rsa_key, another_rsa_key] \<and>
   kb_keys (heap (a_stale_jar (a_world (\<lambda>i. 1000) offline)) 1) = [an_rsa_key] \<and>
   fst (verify_keys ''https://idp.example'' (a_stale_jar (a_world (\<lambda>i. 1000) offline))) =
     Inl RequestException \<and>
   fst (verify_keys ''https://idp.example''
          (a_stale_jar (a_world (\<lambda>i. 1000) (answers 500 [])))) =
     Inr [(''rsa'', [RSA_obj 3])]"
  by (simp add: verify_keys_def x_keys_def getter_use_def KeyJar_get_def issuer_bundles_def
      KeyBundle_keys_def uptodate_def is_not_new_list_def a_jar_def
      blank_bundle_def an_rsa_key_def another_rsa_key_def Let_def a_stale_jar_def
      a_bundle_def a_world_def answers_def offline_def time_def update_def do_remote_def
      request_def request_of_def)

end
